theory Spec2Isabelle
  imports Complex_Main "HOL-Library.Word" "HOL-Library.Sublist"
begin

unbundle bit_operations_syntax

section \<open>Schema of the ledger (migration 20250919164503)\<close>

text \<open>
  The store is a Postgres database with the schema of the two migrations. A table is the
  list of its rows in insertion order. Timestamps count days. Columns that no modelled
  statement reads (\<open>id\<close> of most tables, \<open>created_at\<close>, \<open>admin_notes\<close>, \<open>description\<close> of a
  package, ...) are left out.
\<close>

type_synonym uuid = string
type_synonym timestamp = int

subsection \<open>Numbers and \<open>DECIMAL\<close> columns\<close>

text \<open>
  A \<open>DECIMAL(p,2)\<close> column holds a whole number of hundredths whose absolute value is
  below \<open>10 ^ p\<close>, and is modelled by that whole number: \<open>1000000\<close> is \<open>10000.00\<close>. A
  number that a page sends or receives is a real; the arithmetic the pages do on
  JavaScript numbers is taken as exact. Storing a number in such a column rounds it at
  two places, half away from zero, and fails with \<open>numeric_value_out_of_range\<close> when the
  rounded value does not fit.
\<close>

type_synonym number = real
type_synonym decimal = int

definition round_half_away :: "number \<Rightarrow> int" where
  "round_half_away x = (if 0 \<le> x then \<lfloor>x + 1 / 2\<rfloor> else - \<lfloor>- x + 1 / 2\<rfloor>)"

definition fits :: "nat \<Rightarrow> decimal \<Rightarrow> bool" where
  "fits p c = (\<bar>c\<bar> < 10 ^ p)"

definition to_decimal :: "nat \<Rightarrow> number \<Rightarrow> decimal option" where
  "to_decimal p x = (let c = round_half_away (x * 100) in if fits p c then Some c else None)"

definition to_number :: "decimal \<Rightarrow> number" where
  "to_number c = of_int c / 100"

subsection \<open>Enumerations\<close>

datatype deposit_status = deposit_pending | deposit_confirmed | deposit_rejected

datatype withdrawal_status = withdrawal_pending | withdrawal_approved | withdrawal_rejected

datatype investment_status =
  investment_active | investment_pending | investment_completed | investment_cancelled

datatype package_type = lite | pro | elite

text \<open>
  \<open>CREATE TYPE transaction_type\<close> has five labels. A statement names a label by its text,
  and a text that is no label of the type is refused (\<open>invalid_text_representation\<close>).
  The type declarations generated for the pages list a sixth text,
  \<open>referral_bonus_transfer\<close>, which \<open>transferReferralBonus\<close> sends.
\<close>

datatype transaction_type = deposit | withdrawal | investment | profit | referral_commission

fun transaction_type_out :: "transaction_type \<Rightarrow> string" where
  "transaction_type_out deposit = ''deposit''"
| "transaction_type_out withdrawal = ''withdrawal''"
| "transaction_type_out investment = ''investment''"
| "transaction_type_out profit = ''profit''"
| "transaction_type_out referral_commission = ''referral_commission''"

definition transaction_type_in :: "string \<Rightarrow> transaction_type option" where
  "transaction_type_in s =
     find (\<lambda>k. transaction_type_out k = s)
       [deposit, withdrawal, investment, profit, referral_commission]"

subsection \<open>Tables\<close>

record profile_row =
  profile_user_id :: uuid
  full_name :: string
  phone :: string
  email :: string
  referral_code :: string
  referred_by :: "uuid option"

record wallet_row =
  wallet_user_id :: uuid
  main_balance :: decimal
  referral_bonus_balance :: decimal
  total_invested :: decimal
  total_profits :: decimal
  updated_at :: timestamp

record investment_package_row =
  package_id :: uuid
  package_name :: string
  package_kind :: package_type
  minimum_amount :: decimal
  multiplier :: decimal
  duration_days :: int
  active :: bool

record deposit_row =
  deposit_user_id :: uuid
  deposit_amount :: decimal
  transaction_reference :: string
  deposit_state :: deposit_status

record withdrawal_row =
  withdrawal_user_id :: uuid
  withdrawal_amount :: decimal
  phone_number :: string
  withdrawal_state :: withdrawal_status

record investment_row =
  investment_id :: uuid
  investment_user_id :: uuid
  investment_package_id :: uuid
  investment_amount :: decimal
  expected_return :: decimal
  investment_state :: investment_status
  start_date :: timestamp
  end_date :: "timestamp option"
  profit_distributed :: decimal

record transaction_row =
  transaction_user_id :: uuid
  transaction_kind :: transaction_type
  amount :: decimal
  description :: string
  reference_id :: "uuid option"
  balance_before :: decimal
  balance_after :: decimal

subsection \<open>Row-level security\<close>

text \<open>
  Every table has row-level security enabled. A statement of a signed-in user touches a
  row only if a policy for that table and command admits it; the service role and the
  \<open>SECURITY DEFINER\<close> trigger functions are not subject to the policies. Each policy
  expression of the migration is either \<open>auth.uid() = user_id\<close> (for referrals:
  \<open>auth.uid() = referrer_id OR auth.uid() = referred_id\<close>), which is
  \<open>uid_owns_row\<close> over the row's owner columns, or \<open>true\<close>.
\<close>

datatype table_name =
  Profiles | Wallets | Deposits | Withdrawals | Investments | Transactions | Referrals
  | Investment_packages

datatype command = SELECT | INSERT | UPDATE | DELETE

datatype policy_expr = uid_owns_row | always_true

record policy =
  policy_table :: table_name
  policy_command :: command
  policy_check :: policy_expr

datatype role = Authenticated uuid | Service_role

definition migration_policies :: "policy list" where
  "migration_policies =
     [\<lparr>policy_table = Profiles, policy_command = SELECT, policy_check = uid_owns_row\<rparr>,
      \<lparr>policy_table = Profiles, policy_command = UPDATE, policy_check = uid_owns_row\<rparr>,
      \<lparr>policy_table = Profiles, policy_command = INSERT, policy_check = uid_owns_row\<rparr>,
      \<lparr>policy_table = Wallets, policy_command = SELECT, policy_check = uid_owns_row\<rparr>,
      \<lparr>policy_table = Wallets, policy_command = UPDATE, policy_check = uid_owns_row\<rparr>,
      \<lparr>policy_table = Wallets, policy_command = INSERT, policy_check = uid_owns_row\<rparr>,
      \<lparr>policy_table = Deposits, policy_command = SELECT, policy_check = uid_owns_row\<rparr>,
      \<lparr>policy_table = Deposits, policy_command = INSERT, policy_check = uid_owns_row\<rparr>,
      \<lparr>policy_table = Withdrawals, policy_command = SELECT, policy_check = uid_owns_row\<rparr>,
      \<lparr>policy_table = Withdrawals, policy_command = INSERT, policy_check = uid_owns_row\<rparr>,
      \<lparr>policy_table = Investments, policy_command = SELECT, policy_check = uid_owns_row\<rparr>,
      \<lparr>policy_table = Investments, policy_command = INSERT, policy_check = uid_owns_row\<rparr>,
      \<lparr>policy_table = Transactions, policy_command = SELECT, policy_check = uid_owns_row\<rparr>,
      \<lparr>policy_table = Referrals, policy_command = SELECT, policy_check = uid_owns_row\<rparr>,
      \<lparr>policy_table = Investment_packages, policy_command = SELECT,
        policy_check = always_true\<rparr>]"

fun eval_policy_expr :: "policy_expr \<Rightarrow> uuid \<Rightarrow> uuid list \<Rightarrow> bool" where
  "eval_policy_expr uid_owns_row uid owners = (uid \<in> set owners)"
| "eval_policy_expr always_true uid owners = True"

definition rls_permits ::
  "policy list \<Rightarrow> role \<Rightarrow> table_name \<Rightarrow> command \<Rightarrow> uuid list \<Rightarrow> bool" where
  "rls_permits ps r t c owners =
     (case r of
        Service_role \<Rightarrow> True
      | Authenticated uid \<Rightarrow>
          list_ex (\<lambda>p. policy_table p = t \<and> policy_command p = c
                        \<and> eval_policy_expr (policy_check p) uid owners) ps)"

subsection \<open>The database\<close>

text \<open>
  \<open>users\<close> holds the ids of \<open>auth.users\<close>, which every \<open>user_id\<close> column references.
  The policies are part of the state: the pages under \<open>src/\<close> write to tables for which
  the migration creates no write policy, so the theorems about them say which policies
  they need.
\<close>

record db =
  users :: "uuid list"
  policies :: "policy list"
  profiles :: "profile_row list"
  wallets :: "wallet_row list"
  investment_packages :: "investment_package_row list"
  deposits :: "deposit_row list"
  withdrawals :: "withdrawal_row list"
  investments :: "investment_row list"
  transactions :: "transaction_row list"

datatype sql_error =
  unique_violation string
  | foreign_key_violation string
  | row_level_security_violation table_name
  | invalid_text_representation string
  | numeric_value_out_of_range

section \<open>The trigger \<open>update_wallet_balance\<close> (migration 20250919164524)\<close>

text \<open>
  \<open>UPDATE t SET ... WHERE cond\<close> rewrites the rows that satisfy the condition and
  leaves the others; no matching row is not an error. It fails as a whole, with
  \<open>numeric_value_out_of_range\<close>, when a value it assigns to one of those rows does not
  fit its column.
\<close>

definition update_where :: "('r \<Rightarrow> bool) \<Rightarrow> ('r \<Rightarrow> 'r) \<Rightarrow> 'r list \<Rightarrow> 'r list" where
  "update_where cond f rows = map (\<lambda>r. if cond r then f r else r) rows"

definition update_checked ::
  "('r \<Rightarrow> bool) \<Rightarrow> ('r \<Rightarrow> 'r) \<Rightarrow> ('r \<Rightarrow> bool) \<Rightarrow> 'r list \<Rightarrow> sql_error + 'r list" where
  "update_checked cond f assigned_fit rows =
     (if list_all (\<lambda>r. assigned_fit (f r)) (filter cond rows)
      then Inr (update_where cond f rows)
      else Inl numeric_value_out_of_range)"

datatype tg_op = TG_INSERT | TG_UPDATE | TG_DELETE

definition update_wallet_balance ::
  "tg_op \<Rightarrow> timestamp \<Rightarrow> transaction_row \<Rightarrow> wallet_row list \<Rightarrow> sql_error + wallet_row list" where
  "update_wallet_balance op now NEW ws =
     (if op = TG_INSERT then
        (if transaction_kind NEW = deposit then
           update_checked (\<lambda>w. wallet_user_id w = transaction_user_id NEW)
             (\<lambda>w. w\<lparr>main_balance := main_balance w + amount NEW, updated_at := now\<rparr>)
             (\<lambda>w. fits 15 (main_balance w)) ws
         else if transaction_kind NEW = withdrawal then
           update_checked (\<lambda>w. wallet_user_id w = transaction_user_id NEW)
             (\<lambda>w. w\<lparr>main_balance := main_balance w - amount NEW, updated_at := now\<rparr>)
             (\<lambda>w. fits 15 (main_balance w)) ws
         else if transaction_kind NEW = investment then
           update_checked (\<lambda>w. wallet_user_id w = transaction_user_id NEW)
             (\<lambda>w. w\<lparr>main_balance := main_balance w - amount NEW,
                     total_invested := total_invested w + amount NEW,
                     updated_at := now\<rparr>)
             (\<lambda>w. fits 15 (main_balance w) \<and> fits 15 (total_invested w)) ws
         else if transaction_kind NEW = profit then
           update_checked (\<lambda>w. wallet_user_id w = transaction_user_id NEW)
             (\<lambda>w. w\<lparr>main_balance := main_balance w + amount NEW,
                     total_profits := total_profits w + amount NEW,
                     updated_at := now\<rparr>)
             (\<lambda>w. fits 15 (main_balance w) \<and> fits 15 (total_profits w)) ws
         else if transaction_kind NEW = referral_commission then
           update_checked (\<lambda>w. wallet_user_id w = transaction_user_id NEW)
             (\<lambda>w. w\<lparr>referral_bonus_balance := referral_bonus_balance w + amount NEW,
                     updated_at := now\<rparr>)
             (\<lambda>w. fits 15 (referral_bonus_balance w)) ws
         else Inr ws)
      else Inr ws)"

subsection \<open>\<open>INSERT INTO transactions\<close>\<close>

text \<open>
  What a caller sends (the \<open>Insert\<close> type of the generated declarations): the kind as a
  text, the three amounts as numbers.
\<close>

record transaction_insert =
  ins_user_id :: uuid
  ins_type :: string
  ins_amount :: number
  ins_description :: string
  ins_reference_id :: "uuid option"
  ins_balance_before :: number
  ins_balance_after :: number

text \<open>The values of the statement in the types of the columns.\<close>

definition cast_transaction :: "transaction_insert \<Rightarrow> sql_error + transaction_row" where
  "cast_transaction p =
     (case transaction_type_in (ins_type p) of
        None \<Rightarrow> Inl (invalid_text_representation (ins_type p))
      | Some k \<Rightarrow>
          (case to_decimal 15 (ins_amount p) of
             None \<Rightarrow> Inl numeric_value_out_of_range
           | Some a \<Rightarrow>
               (case to_decimal 15 (ins_balance_before p) of
                  None \<Rightarrow> Inl numeric_value_out_of_range
                | Some before \<Rightarrow>
                    (case to_decimal 15 (ins_balance_after p) of
                       None \<Rightarrow> Inl numeric_value_out_of_range
                     | Some after \<Rightarrow>
                         Inr \<lparr>transaction_user_id = ins_user_id p, transaction_kind = k,
                              amount = a, description = ins_description p,
                              reference_id = ins_reference_id p,
                              balance_before = before, balance_after = after\<rparr>))))"

text \<open>
  The statement: the cast of its values, the policy check of the caller's role, the
  foreign key to \<open>auth.users\<close>, then the row and the \<open>AFTER INSERT\<close> trigger
  \<open>on_transaction_created\<close>. The table has no \<open>CHECK\<close> constraint. A statement that fails
  at any step, the trigger included, leaves the database as it was.
\<close>

definition insert_transaction ::
  "role \<Rightarrow> timestamp \<Rightarrow> transaction_insert \<Rightarrow> db \<Rightarrow> sql_error + db" where
  "insert_transaction r now p d =
     (case cast_transaction p of
        Inl e \<Rightarrow> Inl e
      | Inr NEW \<Rightarrow>
          if \<not> rls_permits (policies d) r Transactions INSERT [transaction_user_id NEW]
          then Inl (row_level_security_violation Transactions)
          else if transaction_user_id NEW \<notin> set (users d)
          then Inl (foreign_key_violation ''transactions_user_id_fkey'')
          else
            (case update_wallet_balance TG_INSERT now NEW (wallets d) of
               Inl e \<Rightarrow> Inl e
             | Inr ws \<Rightarrow> Inr (d\<lparr>transactions := transactions d @ [NEW], wallets := ws\<rparr>)))"

definition wallet_of :: "uuid \<Rightarrow> db \<Rightarrow> wallet_row option" where
  "wallet_of uid d = find (\<lambda>w. wallet_user_id w = uid) (wallets d)"

section \<open>The trigger \<open>handle_new_user\<close> (migration 20250919164524)\<close>

subsection \<open>\<open>MD5\<close> (RFC 1321), as the database computes it on the text of the id\<close>

type_synonym u32 = "32 word"

definition md5_s :: "nat list" where
  "md5_s = [7, 12, 17, 22, 7, 12, 17, 22, 7, 12, 17, 22, 7, 12, 17, 22,
            5, 9, 14, 20, 5, 9, 14, 20, 5, 9, 14, 20, 5, 9, 14, 20,
            4, 11, 16, 23, 4, 11, 16, 23, 4, 11, 16, 23, 4, 11, 16, 23,
            6, 10, 15, 21, 6, 10, 15, 21, 6, 10, 15, 21, 6, 10, 15, 21]"

definition md5_K :: "u32 list" where
  "md5_K =
     [0xd76aa478, 0xe8c7b756, 0x242070db, 0xc1bdceee, 0xf57c0faf, 0x4787c62a, 0xa8304613,
      0xfd469501, 0x698098d8, 0x8b44f7af, 0xffff5bb1, 0x895cd7be, 0x6b901122, 0xfd987193,
      0xa679438e, 0x49b40821, 0xf61e2562, 0xc040b340, 0x265e5a51, 0xe9b6c7aa, 0xd62f105d,
      0x02441453, 0xd8a1e681, 0xe7d3fbc8, 0x21e1cde6, 0xc33707d6, 0xf4d50d87, 0x455a14ed,
      0xa9e3e905, 0xfcefa3f8, 0x676f02d9, 0x8d2a4c8a, 0xfffa3942, 0x8771f681, 0x6d9d6122,
      0xfde5380c, 0xa4beea44, 0x4bdecfa9, 0xf6bb4b60, 0xbebfbc70, 0x289b7ec6, 0xeaa127fa,
      0xd4ef3085, 0x04881d05, 0xd9d4d039, 0xe6db99e5, 0x1fa27cf8, 0xc4ac5665, 0xf4292244,
      0x432aff97, 0xab9423a7, 0xfc93a039, 0x655b59c3, 0x8f0ccc92, 0xffeff47d, 0x85845dd1,
      0x6fa87e4f, 0xfe2ce6e0, 0xa3014314, 0x4e0811a1, 0xf7537e82, 0xbd3af235, 0x2ad7d2bb,
      0xeb86d391]"

definition rotl32 :: "u32 \<Rightarrow> nat \<Rightarrow> u32" where
  "rotl32 x n = push_bit n x OR drop_bit (32 - n) x"

definition md5_step ::
  "u32 list \<Rightarrow> (u32 \<times> u32 \<times> u32 \<times> u32) \<Rightarrow> nat \<Rightarrow> (u32 \<times> u32 \<times> u32 \<times> u32)" where
  "md5_step M st i =
     (case st of (a, b, c, d) \<Rightarrow>
        let f = (if i < 16 then (b AND c) OR (NOT b AND d)
                 else if i < 32 then (d AND b) OR (NOT d AND c)
                 else if i < 48 then b XOR c XOR d
                 else c XOR (b OR NOT d));
            g = (if i < 16 then i
                 else if i < 32 then (5 * i + 1) mod 16
                 else if i < 48 then (3 * i + 5) mod 16
                 else (7 * i) mod 16)
        in (d, b + rotl32 (a + f + md5_K ! i + M ! g) (md5_s ! i), b, c))"

definition md5_block ::
  "(u32 \<times> u32 \<times> u32 \<times> u32) \<Rightarrow> u32 list \<Rightarrow> (u32 \<times> u32 \<times> u32 \<times> u32)" where
  "md5_block h M =
     (case h of (a0, b0, c0, d0) \<Rightarrow>
        case foldl (md5_step M) h [0..<64] of (a, b, c, d) \<Rightarrow>
          (a0 + a, b0 + b, c0 + c, d0 + d))"

fun le_word :: "nat list \<Rightarrow> u32" where
  "le_word [] = 0"
| "le_word (x # xs) = of_nat x + push_bit 8 (le_word xs)"

fun chunks :: "nat \<Rightarrow> nat \<Rightarrow> 'a list \<Rightarrow> 'a list list" where
  "chunks 0 n xs = []"
| "chunks (Suc k) n xs = take n xs # chunks k n (drop n xs)"

definition md5_pad :: "nat list \<Rightarrow> nat list" where
  "md5_pad bs =
     (let n = length bs;
          z = (55 + 64 - n mod 64) mod 64;
          bits = 8 * n
      in bs @ [128] @ replicate z 0 @ map (\<lambda>k. (bits div 256 ^ k) mod 256) [0..<8])"

definition hex_digit :: "nat \<Rightarrow> char" where
  "hex_digit n = ''0123456789abcdef'' ! n"

definition hex_byte :: "nat \<Rightarrow> string" where
  "hex_byte b = [hex_digit (b div 16), hex_digit (b mod 16)]"

definition hex_le :: "u32 \<Rightarrow> string" where
  "hex_le w = concat (map (\<lambda>k. hex_byte (unat (drop_bit (8 * k) w AND 255))) [0..<4])"

definition md5 :: "string \<Rightarrow> string" where
  "md5 s =
     (let p = md5_pad (map of_char s);
          blocks = map (\<lambda>blk. map le_word (chunks 16 4 blk)) (chunks (length p div 64) 64 p)
      in case foldl md5_block (0x67452301, 0xefcdab89, 0x98badcfe, 0x10325476) blocks of
           (a, b, c, d) \<Rightarrow> hex_le a @ hex_le b @ hex_le c @ hex_le d)"

subsection \<open>The SQL functions of the trigger body\<close>

definition upper_char :: "char \<Rightarrow> char" where
  "upper_char c =
     (let n = (of_char c :: nat) in if 97 \<le> n \<and> n \<le> 122 then char_of (n - 32) else c)"

definition upper :: "string \<Rightarrow> string" where
  "upper s = map upper_char s"

definition substring :: "string \<Rightarrow> nat \<Rightarrow> nat \<Rightarrow> string" where
  "substring s start n = take n (drop (start - 1) s)"

definition coalesce :: "'a option \<Rightarrow> 'a \<Rightarrow> 'a" where
  "coalesce v dflt = (case v of None \<Rightarrow> dflt | Some x \<Rightarrow> x)"

subsection \<open>The trigger function\<close>

record auth_user =
  auth_id :: uuid
  auth_email :: string
  raw_user_meta_data :: "(string \<times> string) list"

definition ref_code_of :: "uuid \<Rightarrow> string" where
  "ref_code_of uid = ''NA'' @ upper (substring (md5 uid) 1 6)"

text \<open>
  The two inserts of the trigger body, with the unique constraints of the tables
  (\<open>profiles.user_id\<close>, \<open>profiles.referral_code\<close>, \<open>wallets.user_id\<close>). The function is
  \<open>SECURITY DEFINER\<close>, so no policy applies; it runs inside the statement that fired it,
  so an error leaves no row behind. The wallet's balances take the column defaults
  \<open>0.00\<close>.
\<close>

definition handle_new_user :: "timestamp \<Rightarrow> auth_user \<Rightarrow> db \<Rightarrow> sql_error + db" where
  "handle_new_user now NEW d =
     (let ref_code = ref_code_of (auth_id NEW) in
      if list_ex (\<lambda>p. profile_user_id p = auth_id NEW) (profiles d)
      then Inl (unique_violation ''profiles_user_id_key'')
      else if list_ex (\<lambda>p. referral_code p = ref_code) (profiles d)
      then Inl (unique_violation ''profiles_referral_code_key'')
      else if list_ex (\<lambda>w. wallet_user_id w = auth_id NEW) (wallets d)
      then Inl (unique_violation ''wallets_user_id_key'')
      else Inr (d\<lparr>profiles := profiles d @
                    [\<lparr>profile_user_id = auth_id NEW,
                      full_name = coalesce (map_of (raw_user_meta_data NEW) ''full_name'') ''User'',
                      phone = coalesce (map_of (raw_user_meta_data NEW) ''phone'') [],
                      email = auth_email NEW,
                      referral_code = ref_code,
                      referred_by = None\<rparr>],
                  wallets := wallets d @
                    [\<lparr>wallet_user_id = auth_id NEW, main_balance = 0,
                      referral_bonus_balance = 0, total_invested = 0, total_profits = 0,
                      updated_at = now\<rparr>]\<rparr>))"

text \<open>
  \<open>on_auth_user_created\<close>: the insert into \<open>auth.users\<close> (primary key \<open>id\<close>) and the
  trigger it fires.
\<close>

definition on_auth_user_created :: "timestamp \<Rightarrow> auth_user \<Rightarrow> db \<Rightarrow> sql_error + db" where
  "on_auth_user_created now NEW d =
     (if auth_id NEW \<in> set (users d) then Inl (unique_violation ''users_pkey'')
      else handle_new_user now NEW (d\<lparr>users := users d @ [auth_id NEW]\<rparr>))"

section \<open>The statements the pages send\<close>

text \<open>
  The pages run as the signed-in user (they navigate away when no user is signed in), so
  every statement below is subject to the policies unless the role is the service role.
  The amounts of a statement are numbers; the store casts them to the type of their
  column first.
\<close>

text \<open>
  \<open>from('wallets').select(...).eq('user_id', uid).single()\<close>: the one visible row, or
  nothing when there is not exactly one.
\<close>

definition fetch_wallet :: "role \<Rightarrow> uuid \<Rightarrow> db \<Rightarrow> wallet_row option" where
  "fetch_wallet r uid d =
     (case filter (\<lambda>w. wallet_user_id w = uid
                        \<and> rls_permits (policies d) r Wallets SELECT [wallet_user_id w])
             (wallets d) of
        [w] \<Rightarrow> Some w
      | _ \<Rightarrow> None)"

text \<open>
  The pages keep the row in their state \<open>walletData\<close> until they fetch again; the
  handlers below take that state as an argument and read its columns as numbers.
\<close>

definition insert_deposit :: "role \<Rightarrow> uuid \<Rightarrow> number \<Rightarrow> string \<Rightarrow> db \<Rightarrow> sql_error + db" where
  "insert_deposit r uid amt reference d =
     (case to_decimal 15 amt of
        None \<Rightarrow> Inl numeric_value_out_of_range
      | Some a \<Rightarrow>
          if \<not> rls_permits (policies d) r Deposits INSERT [uid]
          then Inl (row_level_security_violation Deposits)
          else if uid \<notin> set (users d)
          then Inl (foreign_key_violation ''deposits_user_id_fkey'')
          else Inr (d\<lparr>deposits := deposits d @
                      [\<lparr>deposit_user_id = uid, deposit_amount = a,
                        transaction_reference = reference,
                        deposit_state = deposit_pending\<rparr>]\<rparr>))"

definition insert_withdrawal :: "role \<Rightarrow> uuid \<Rightarrow> number \<Rightarrow> string \<Rightarrow> db \<Rightarrow> sql_error + db" where
  "insert_withdrawal r uid amt phone_no d =
     (case to_decimal 15 amt of
        None \<Rightarrow> Inl numeric_value_out_of_range
      | Some a \<Rightarrow>
          if \<not> rls_permits (policies d) r Withdrawals INSERT [uid]
          then Inl (row_level_security_violation Withdrawals)
          else if uid \<notin> set (users d)
          then Inl (foreign_key_violation ''withdrawals_user_id_fkey'')
          else Inr (d\<lparr>withdrawals := withdrawals d @
                      [\<lparr>withdrawal_user_id = uid, withdrawal_amount = a,
                        phone_number = phone_no,
                        withdrawal_state = withdrawal_pending\<rparr>]\<rparr>))"

text \<open>
  \<open>from('investments').insert(...).select().single()\<close> with status \<open>'active'\<close>: the
  insert returns the new row, which the caller must also be allowed to read. \<open>id\<close> and
  \<open>start_date\<close> take their defaults \<open>gen_random_uuid()\<close> and \<open>now()\<close>, \<open>profit_distributed\<close>
  its default \<open>0.00\<close>.
\<close>

record investment_insert =
  inv_user_id :: uuid
  inv_package_id :: uuid
  inv_amount :: number
  inv_expected_return :: number
  inv_end_date :: timestamp

definition insert_investment ::
  "role \<Rightarrow> timestamp \<Rightarrow> uuid \<Rightarrow> investment_insert \<Rightarrow> db \<Rightarrow> sql_error + db" where
  "insert_investment r now new_id p d =
     (case to_decimal 15 (inv_amount p) of
        None \<Rightarrow> Inl numeric_value_out_of_range
      | Some a \<Rightarrow>
          (case to_decimal 15 (inv_expected_return p) of
             None \<Rightarrow> Inl numeric_value_out_of_range
           | Some e \<Rightarrow>
               if \<not> (rls_permits (policies d) r Investments INSERT [inv_user_id p]
                       \<and> rls_permits (policies d) r Investments SELECT [inv_user_id p])
               then Inl (row_level_security_violation Investments)
               else if list_ex (\<lambda>i. investment_id i = new_id) (investments d)
               then Inl (unique_violation ''investments_pkey'')
               else if inv_user_id p \<notin> set (users d)
               then Inl (foreign_key_violation ''investments_user_id_fkey'')
               else if \<not> list_ex (\<lambda>k. package_id k = inv_package_id p) (investment_packages d)
               then Inl (foreign_key_violation ''investments_package_id_fkey'')
               else Inr (d\<lparr>investments := investments d @
                           [\<lparr>investment_id = new_id, investment_user_id = inv_user_id p,
                             investment_package_id = inv_package_id p,
                             investment_amount = a, expected_return = e,
                             investment_state = investment_active,
                             start_date = now, end_date = Some (inv_end_date p),
                             profit_distributed = 0\<rparr>]\<rparr>)))"

text \<open>
  \<open>from('wallets').update({...}).eq('user_id', uid)\<close>: the columns the caller names are
  cast, then assigned in the rows of that user which the caller's \<open>UPDATE\<close> policy shows;
  the \<open>BEFORE UPDATE\<close> trigger \<open>update_updated_at_column\<close> stamps each.
\<close>

record wallet_update =
  upd_main_balance :: "number option"
  upd_referral_bonus_balance :: "number option"
  upd_total_invested :: "number option"
  upd_total_profits :: "number option"

definition cast_column :: "number option \<Rightarrow> sql_error + decimal option" where
  "cast_column v =
     (case v of
        None \<Rightarrow> Inr None
      | Some x \<Rightarrow>
          (case to_decimal 15 x of
             None \<Rightarrow> Inl numeric_value_out_of_range
           | Some c \<Rightarrow> Inr (Some c)))"

definition update_wallets ::
  "role \<Rightarrow> timestamp \<Rightarrow> uuid \<Rightarrow> wallet_update \<Rightarrow> db \<Rightarrow> sql_error + db" where
  "update_wallets r now uid upd d =
     (case cast_column (upd_main_balance upd) of
        Inl e \<Rightarrow> Inl e
      | Inr m \<Rightarrow>
     (case cast_column (upd_referral_bonus_balance upd) of
        Inl e \<Rightarrow> Inl e
      | Inr b \<Rightarrow>
     (case cast_column (upd_total_invested upd) of
        Inl e \<Rightarrow> Inl e
      | Inr i \<Rightarrow>
     (case cast_column (upd_total_profits upd) of
        Inl e \<Rightarrow> Inl e
      | Inr p \<Rightarrow>
          Inr (d\<lparr>wallets :=
                 update_where
                   (\<lambda>w. wallet_user_id w = uid
                         \<and> rls_permits (policies d) r Wallets UPDATE [wallet_user_id w])
                   (\<lambda>w. w\<lparr>main_balance := coalesce m (main_balance w),
                           referral_bonus_balance := coalesce b (referral_bonus_balance w),
                           total_invested := coalesce i (total_invested w),
                           total_profits := coalesce p (total_profits w),
                           updated_at := now\<rparr>)
                   (wallets d)\<rparr>)))))"

definition update_profiles ::
  "role \<Rightarrow> uuid \<Rightarrow> (profile_row \<Rightarrow> profile_row) \<Rightarrow> db \<Rightarrow> sql_error + db" where
  "update_profiles r uid f d =
     Inr (d\<lparr>profiles :=
            update_where
              (\<lambda>p. profile_user_id p = uid
                    \<and> rls_permits (policies d) r Profiles UPDATE [profile_user_id p])
              f (profiles d)\<rparr>)"

text \<open>
  \<open>UPDATE\<close> and \<open>DELETE\<close> on \<open>transactions\<close>, which no page sends but the API accepts:
  they reach the rows that satisfy the caller's filter and that a policy for the command
  shows to the caller.
\<close>

definition update_transactions ::
  "role \<Rightarrow> (transaction_row \<Rightarrow> bool) \<Rightarrow> (transaction_row \<Rightarrow> transaction_row) \<Rightarrow> db \<Rightarrow> db" where
  "update_transactions r cond f d =
     d\<lparr>transactions :=
         update_where
           (\<lambda>t. cond t \<and> rls_permits (policies d) r Transactions UPDATE [transaction_user_id t])
           f (transactions d)\<rparr>"

definition delete_transactions :: "role \<Rightarrow> (transaction_row \<Rightarrow> bool) \<Rightarrow> db \<Rightarrow> db" where
  "delete_transactions r cond d =
     d\<lparr>transactions :=
         filter
           (\<lambda>t. \<not> (cond t
                    \<and> rls_permits (policies d) r Transactions DELETE [transaction_user_id t]))
           (transactions d)\<rparr>"

section \<open>The page handlers\<close>

text \<open>
  A handler takes the signed-in user, the values the database generates (\<open>now()\<close>,
  \<open>gen_random_uuid()\<close>), the page's state \<open>walletData\<close> (the wallet row it last
  fetched, if any) and the database, and returns the toast it shows with the database it
  leaves. A handler that throws after a write leaves that write in place: each
  statement is its own transaction.
\<close>

datatype toast =
  Deposit_Request_Submitted | Deposit_Failed
  | Withdrawal_Request_Submitted | Withdrawal_Failed
  | Insufficient_Balance
  | Investment_Successful | Investment_Failed
  | No_Bonus_Available | Transfer_Successful | Transfer_Failed
  | Profile_Updated | Update_Failed

definition handleDeposit :: "uuid \<Rightarrow> number \<Rightarrow> string \<Rightarrow> db \<Rightarrow> toast \<times> db" where
  "handleDeposit uid amt reference d =
     (case insert_deposit (Authenticated uid) uid amt reference d of
        Inl e \<Rightarrow> (Deposit_Failed, d)
      | Inr d' \<Rightarrow> (Deposit_Request_Submitted, d'))"

definition handleWithdraw ::
  "uuid \<Rightarrow> wallet_row option \<Rightarrow> number \<Rightarrow> string \<Rightarrow> db \<Rightarrow> toast \<times> db" where
  "handleWithdraw uid walletData amt phone_no d =
     (case walletData of
        None \<Rightarrow> (Insufficient_Balance, d)
      | Some wd \<Rightarrow>
          if amt > to_number (main_balance wd) then (Insufficient_Balance, d)
          else
            (case insert_withdrawal (Authenticated uid) uid amt phone_no d of
               Inl e \<Rightarrow> (Withdrawal_Failed, d)
             | Inr d' \<Rightarrow> (Withdrawal_Request_Submitted, d')))"

definition canInvest :: "wallet_row option \<Rightarrow> investment_package_row \<Rightarrow> bool" where
  "canInvest walletData packageData =
     (case walletData of
        None \<Rightarrow> False
      | Some wd \<Rightarrow> to_number (main_balance wd) \<ge> to_number (minimum_amount packageData))"

text \<open>\<open>walletData?.field || 0\<close>\<close>

definition or_zero :: "wallet_row option \<Rightarrow> (wallet_row \<Rightarrow> decimal) \<Rightarrow> number" where
  "or_zero walletData field =
     (case walletData of
        None \<Rightarrow> 0
      | Some wd \<Rightarrow> if to_number (field wd) = 0 then 0 else to_number (field wd))"

definition handleInvest ::
  "uuid \<Rightarrow> timestamp \<Rightarrow> uuid \<Rightarrow> wallet_row option \<Rightarrow> investment_package_row \<Rightarrow> db
     \<Rightarrow> toast \<times> db" where
  "handleInvest uid now new_id walletData packageData d =
     (if \<not> canInvest walletData packageData then (Insufficient_Balance, d)
      else
        let expectedReturn =
              to_number (minimum_amount packageData) * to_number (multiplier packageData);
            endDate = now + 365
        in
          case insert_investment (Authenticated uid) now new_id
                 \<lparr>inv_user_id = uid, inv_package_id = package_id packageData,
                  inv_amount = to_number (minimum_amount packageData),
                  inv_expected_return = expectedReturn,
                  inv_end_date = endDate\<rparr> d of
            Inl e \<Rightarrow> (Investment_Failed, d)
          | Inr d1 \<Rightarrow>
              (case insert_transaction (Authenticated uid) now
                      \<lparr>ins_user_id = uid, ins_type = ''investment'',
                       ins_amount = to_number (minimum_amount packageData),
                       ins_description =
                         ''Investment in '' @ package_name packageData @ '' package'',
                       ins_reference_id = Some new_id,
                       ins_balance_before = or_zero walletData main_balance,
                       ins_balance_after =
                         or_zero walletData main_balance
                           - to_number (minimum_amount packageData)\<rparr> d1 of
                 Inl e \<Rightarrow> (Investment_Failed, d1)
               | Inr d2 \<Rightarrow>
                   (case update_wallets (Authenticated uid) now uid
                           \<lparr>upd_main_balance =
                              Some (or_zero walletData main_balance
                                      - to_number (minimum_amount packageData)),
                            upd_referral_bonus_balance = None,
                            upd_total_invested =
                              Some (or_zero walletData total_invested
                                      + to_number (minimum_amount packageData)),
                            upd_total_profits = None\<rparr> d2 of
                      Inl e \<Rightarrow> (Investment_Failed, d2)
                    | Inr d3 \<Rightarrow> (Investment_Successful, d3))))"

definition transferReferralBonus ::
  "uuid \<Rightarrow> timestamp \<Rightarrow> wallet_row option \<Rightarrow> db \<Rightarrow> toast \<times> db" where
  "transferReferralBonus uid now walletData d =
     (case walletData of
        None \<Rightarrow> (No_Bonus_Available, d)
      | Some wd \<Rightarrow>
          if to_number (referral_bonus_balance wd) = 0
             \<or> to_number (referral_bonus_balance wd) \<le> 0
          then (No_Bonus_Available, d)
          else
            (case insert_transaction (Authenticated uid) now
                    \<lparr>ins_user_id = uid, ins_type = ''referral_bonus_transfer'',
                     ins_amount = to_number (referral_bonus_balance wd),
                     ins_description = ''Referral bonus transfer to main balance'',
                     ins_reference_id = None,
                     ins_balance_before = to_number (main_balance wd),
                     ins_balance_after =
                       to_number (main_balance wd)
                         + to_number (referral_bonus_balance wd)\<rparr> d of
               Inl e \<Rightarrow> (Transfer_Failed, d)
             | Inr d1 \<Rightarrow>
                 (case update_wallets (Authenticated uid) now uid
                         \<lparr>upd_main_balance =
                            Some (to_number (main_balance wd)
                                    + to_number (referral_bonus_balance wd)),
                          upd_referral_bonus_balance = Some 0,
                          upd_total_invested = None,
                          upd_total_profits = None\<rparr> d1 of
                    Inl e \<Rightarrow> (Transfer_Failed, d1)
                  | Inr d2 \<Rightarrow> (Transfer_Successful, d2))))"

definition handleUpdateProfile ::
  "uuid \<Rightarrow> string \<Rightarrow> string \<Rightarrow> string \<Rightarrow> db \<Rightarrow> toast \<times> db" where
  "handleUpdateProfile uid name phone_no mail d =
     (case update_profiles (Authenticated uid) uid
             (\<lambda>p. p\<lparr>full_name := name, phone := phone_no, email := mail\<rparr>) d of
        Inl e \<Rightarrow> (Update_Failed, d)
      | Inr d' \<Rightarrow> (Profile_Updated, d'))"

subsection \<open>What a signed-in user can ask of the store\<close>

datatype user_request =
  Deposit_request number string
  | Withdraw_request "wallet_row option" number string
  | Invest_request timestamp uuid "wallet_row option" investment_package_row
  | Transfer_request timestamp "wallet_row option"
  | Profile_request string string string
  | Insert_transaction_request timestamp transaction_insert
  | Update_transactions_request "transaction_row \<Rightarrow> bool" "transaction_row \<Rightarrow> transaction_row"
  | Delete_transactions_request "transaction_row \<Rightarrow> bool"
  | Update_wallet_request timestamp wallet_update

fun user_step :: "uuid \<Rightarrow> user_request \<Rightarrow> db \<Rightarrow> db" where
  "user_step uid (Deposit_request amt reference) d = snd (handleDeposit uid amt reference d)"
| "user_step uid (Withdraw_request walletData amt phone_no) d =
     snd (handleWithdraw uid walletData amt phone_no d)"
| "user_step uid (Invest_request now new_id walletData packageData) d =
     snd (handleInvest uid now new_id walletData packageData d)"
| "user_step uid (Transfer_request now walletData) d =
     snd (transferReferralBonus uid now walletData d)"
| "user_step uid (Profile_request name phone_no mail) d =
     snd (handleUpdateProfile uid name phone_no mail d)"
| "user_step uid (Insert_transaction_request now p) d =
     (case insert_transaction (Authenticated uid) now p d of Inl e \<Rightarrow> d | Inr d' \<Rightarrow> d')"
| "user_step uid (Update_transactions_request cond f) d =
     update_transactions (Authenticated uid) cond f d"
| "user_step uid (Delete_transactions_request cond) d =
     delete_transactions (Authenticated uid) cond d"
| "user_step uid (Update_wallet_request now upd) d =
     (case update_wallets (Authenticated uid) now uid upd d of Inl e \<Rightarrow> d | Inr d' \<Rightarrow> d')"

fun user_steps :: "(uuid \<times> user_request) list \<Rightarrow> db \<Rightarrow> db" where
  "user_steps [] d = d"
| "user_steps ((uid, req) # rest) d = user_steps rest (user_step uid req d)"

definition no_write_policy_on_transactions :: "policy list \<Rightarrow> bool" where
  "no_write_policy_on_transactions ps =
     list_all (\<lambda>p. \<not> (policy_table p = Transactions
                        \<and> (policy_command p = UPDATE \<or> policy_command p = DELETE))) ps"

section \<open>The ledger's sums\<close>

text \<open>The sum of the amounts of a user's rows of one kind, the kind named by its text.\<close>

definition amount_sum :: "uuid \<Rightarrow> string \<Rightarrow> transaction_row list \<Rightarrow> decimal" where
  "amount_sum uid kind ts =
     sum_list (map amount
       (filter (\<lambda>t. transaction_user_id t = uid
                     \<and> transaction_type_out (transaction_kind t) = kind) ts))"

text \<open>The invariant in the words of the specification (section 3).\<close>

definition spec_ledger_invariant :: "db \<Rightarrow> bool" where
  "spec_ledger_invariant d =
     list_all
       (\<lambda>w. let s = (\<lambda>kind. amount_sum (wallet_user_id w) kind (transactions d)) in
             main_balance w
               = s ''deposit'' + s ''profit'' - s ''withdrawal'' - s ''investment''
             \<and> referral_bonus_balance w
                 = s ''referral_commission'' - s ''referral_bonus_transfer''
             \<and> total_invested w = s ''investment''
             \<and> total_profits w = s ''profit'')
       (wallets d)"

text \<open>
  The dispatch table of the specification (section 4.1): for a kind and an amount, the
  deltas of \<open>main_balance\<close>, \<open>referral_bonus_balance\<close>, \<open>total_invested\<close> and
  \<open>total_profits\<close>.
\<close>

type_synonym balance_fields = "decimal \<times> decimal \<times> decimal \<times> decimal"

definition dispatch_table :: "string \<Rightarrow> decimal \<Rightarrow> balance_fields option" where
  "dispatch_table kind a =
     (if kind = ''deposit'' then Some (a, 0, 0, 0)
      else if kind = ''withdrawal'' then Some (- a, 0, 0, 0)
      else if kind = ''investment'' then Some (- a, 0, a, 0)
      else if kind = ''profit'' then Some (a, 0, 0, a)
      else if kind = ''referral_commission'' then Some (0, a, 0, 0)
      else if kind = ''referral_bonus_transfer'' then Some (a, - a, 0, 0)
      else None)"

definition balances :: "wallet_row \<Rightarrow> balance_fields" where
  "balances w = (main_balance w, referral_bonus_balance w, total_invested w, total_profits w)"

definition add_delta :: "balance_fields \<Rightarrow> balance_fields \<Rightarrow> balance_fields" where
  "add_delta b dl =
     (case b of (m, r, i, p) \<Rightarrow> case dl of (dm, dr, di, dp) \<Rightarrow> (m + dm, r + dr, i + di, p + dp))"

text \<open>Four balances that their columns can hold.\<close>

definition balances_fit :: "balance_fields \<Rightarrow> bool" where
  "balances_fit b = (case b of (m, r, i, p) \<Rightarrow> fits 15 m \<and> fits 15 r \<and> fits 15 i \<and> fits 15 p)"

definition wallets_in_range :: "db \<Rightarrow> bool" where
  "wallets_in_range d = list_all (\<lambda>w. balances_fit (balances w)) (wallets d)"

subsection \<open>Runs of the ledger\<close>

text \<open>
  What reaches the ledger: a registration (the insert into \<open>auth.users\<close> with its
  trigger), an insert into \<open>transactions\<close> by any role, and the two handlers that write
  to \<open>transactions\<close>, with whatever wallet row their page holds. A refused statement
  leaves the database as it was.
\<close>

datatype ledger_event =
  Register timestamp auth_user
  | Record role timestamp transaction_insert
  | Invest uuid timestamp uuid "wallet_row option" investment_package_row
  | Transfer uuid timestamp "wallet_row option"

fun ledger_step :: "ledger_event \<Rightarrow> db \<Rightarrow> db" where
  "ledger_step (Register now NEW) d =
     (case on_auth_user_created now NEW d of Inl e \<Rightarrow> d | Inr d' \<Rightarrow> d')"
| "ledger_step (Record r now p) d =
     (case insert_transaction r now p d of Inl e \<Rightarrow> d | Inr d' \<Rightarrow> d')"
| "ledger_step (Invest uid now new_id walletData packageData) d =
     snd (handleInvest uid now new_id walletData packageData d)"
| "ledger_step (Transfer uid now walletData) d =
     snd (transferReferralBonus uid now walletData d)"

fun ledger_run :: "ledger_event list \<Rightarrow> db \<Rightarrow> db" where
  "ledger_run [] d = d"
| "ledger_run (ev # rest) d = ledger_run rest (ledger_step ev d)"

section \<open>Sample states\<close>

text \<open>
  \<open>empty_db\<close> is the database right after the two migrations: no user, the policies of
  the migration, and the three packages it inserts, each with the default multiplier
  \<open>3.00\<close> and the default duration of 365 days.
\<close>

definition alice :: uuid where
  "alice = ''d86f011c-e1d4-4392-be86-6bc9521adda1''"

definition bob :: uuid where
  "bob = ''8ea00ea3-fdb8-42dc-8b29-659220d9a3d6''"

definition lite_package :: investment_package_row where
  "lite_package =
     \<lparr>package_id = ''5b1f0c9e-6f0a-4c39-9d53-0a4c2a7e1001'', package_name = ''Lite Package'',
      package_kind = lite, minimum_amount = 1000000, multiplier = 300, duration_days = 365,
      active = True\<rparr>"

definition pro_package :: investment_package_row where
  "pro_package =
     \<lparr>package_id = ''5b1f0c9e-6f0a-4c39-9d53-0a4c2a7e1002'', package_name = ''Pro Package'',
      package_kind = pro, minimum_amount = 3000000, multiplier = 300, duration_days = 365,
      active = True\<rparr>"

definition elite_package :: investment_package_row where
  "elite_package =
     \<lparr>package_id = ''5b1f0c9e-6f0a-4c39-9d53-0a4c2a7e1003'', package_name = ''Elite Package'',
      package_kind = elite, minimum_amount = 5000000, multiplier = 300, duration_days = 365,
      active = True\<rparr>"

definition empty_db :: db where
  "empty_db =
     \<lparr>users = [], policies = migration_policies, profiles = [], wallets = [],
      investment_packages = [lite_package, pro_package, elite_package],
      deposits = [], withdrawals = [], investments = [], transactions = []\<rparr>"

definition alice_user :: auth_user where
  "alice_user =
     \<lparr>auth_id = alice, auth_email = ''alice@example.com'',
      raw_user_meta_data = [(''full_name'', ''Alice A''), (''phone'', ''0712345678'')]\<rparr>"

definition bob_user :: auth_user where
  "bob_user =
     \<lparr>auth_id = bob, auth_email = ''bob@example.com'', raw_user_meta_data = []\<rparr>"

definition alice_registered :: db where
  "alice_registered =
     empty_db
       \<lparr>users := [alice],
        profiles :=
          [\<lparr>profile_user_id = alice, full_name = ''Alice A'', phone = ''0712345678'',
            email = ''alice@example.com'', referral_code = ''NA51FEB6'',
            referred_by = None\<rparr>],
        wallets :=
          [\<lparr>wallet_user_id = alice, main_balance = 0, referral_bonus_balance = 0,
            total_invested = 0, total_profits = 0, updated_at = 1\<rparr>]\<rparr>"

text \<open>
  \<open>alice_db m r\<close> is that database after the back office (the service role) has recorded
  for her a deposit of \<open>m\<close> and a referral commission of \<open>r\<close> hundredths, on days 2 and 3.
\<close>

definition alice_wallet :: "decimal \<Rightarrow> decimal \<Rightarrow> wallet_row" where
  "alice_wallet m r =
     \<lparr>wallet_user_id = alice, main_balance = m, referral_bonus_balance = r,
      total_invested = 0, total_profits = 0, updated_at = 3\<rparr>"

definition back_office_row :: "string \<Rightarrow> decimal \<Rightarrow> transaction_insert" where
  "back_office_row kind a =
     \<lparr>ins_user_id = alice, ins_type = kind, ins_amount = to_number a,
      ins_description = ''Recorded by the back office'', ins_reference_id = None,
      ins_balance_before = 0, ins_balance_after = to_number a\<rparr>"

definition alice_row :: "transaction_type \<Rightarrow> decimal \<Rightarrow> transaction_row" where
  "alice_row k a =
     \<lparr>transaction_user_id = alice, transaction_kind = k, amount = a,
      description = ''Recorded by the back office'', reference_id = None,
      balance_before = 0, balance_after = a\<rparr>"

definition alice_db :: "decimal \<Rightarrow> decimal \<Rightarrow> db" where
  "alice_db m r =
     alice_registered
       \<lparr>wallets := [alice_wallet m r],
        transactions := [alice_row deposit m, alice_row referral_commission r]\<rparr>"

definition alice_history :: "decimal \<Rightarrow> decimal \<Rightarrow> ledger_event list" where
  "alice_history m r =
     [Register 1 alice_user,
      Record Service_role 2 (back_office_row ''deposit'' m),
      Record Service_role 3 (back_office_row ''referral_commission'' r)]"

text \<open>
  The pages that write to \<open>transactions\<close> need a policy the migrations do not create.
  \<open>open_db m r\<close> is \<open>alice_db m r\<close> after an administrator has added it:
  \<open>CREATE POLICY ... ON transactions FOR INSERT WITH CHECK (auth.uid() = user_id)\<close>.
\<close>

definition open_db :: "decimal \<Rightarrow> decimal \<Rightarrow> db" where
  "open_db m r =
     (alice_db m r)\<lparr>policies := migration_policies @
        [\<lparr>policy_table = Transactions, policy_command = INSERT,
          policy_check = uid_owns_row\<rparr>]\<rparr>"

text \<open>
  \<open>package_type\<close> is unique in \<open>investment_packages\<close>, so the catalogue changes only when
  an administrator changes the terms of one of the three packages. \<open>repriced_db m r\<close> is
  \<open>alice_db m r\<close> after the Lite package has been set to a minimum of \<open>10000.01\<close>, a
  multiplier of \<open>1.25\<close> and a duration of 30 days.
\<close>

definition repriced_lite_package :: investment_package_row where
  "repriced_lite_package =
     lite_package\<lparr>minimum_amount := 1000001, multiplier := 125, duration_days := 30\<rparr>"

definition repriced_db :: "decimal \<Rightarrow> decimal \<Rightarrow> db" where
  "repriced_db m r =
     (alice_db m r)\<lparr>investment_packages :=
        [repriced_lite_package, pro_package, elite_package]\<rparr>"

text \<open>Statements of the back office used in the examples below, and a generated id.\<close>

definition overdraft :: transaction_insert where
  "overdraft =
     \<lparr>ins_user_id = alice, ins_type = ''withdrawal'', ins_amount = 500,
      ins_description = ''Withdrawal'', ins_reference_id = None,
      ins_balance_before = 100, ins_balance_after = - 400\<rparr>"

definition deposit_250 :: transaction_insert where
  "deposit_250 =
     \<lparr>ins_user_id = alice, ins_type = ''deposit'', ins_amount = 250,
      ins_description = ''Deposit'', ins_reference_id = None,
      ins_balance_before = 100, ins_balance_after = 350\<rparr>"

definition negative_deposit :: transaction_insert where
  "negative_deposit =
     \<lparr>ins_user_id = alice, ins_type = ''deposit'', ins_amount = - 50,
      ins_description = ''Deposit'', ins_reference_id = None,
      ins_balance_before = 100, ins_balance_after = 50\<rparr>"

definition invest_id :: uuid where
  "invest_id = ''0c7d2f4a-91b3-4e68-8a55-3f6e5d7c9001''"

definition sample_requests :: "(uuid \<times> user_request) list" where
  "sample_requests =
     [(alice, Delete_transactions_request (\<lambda>t. True)),
      (alice, Update_transactions_request (\<lambda>t. True) (\<lambda>t. t\<lparr>amount := 0\<rparr>)),
      (alice, Update_wallet_request 5
         \<lparr>upd_main_balance = None, upd_referral_bonus_balance = None,
          upd_total_invested = None, upd_total_profits = Some 7\<rparr>),
      (alice, Deposit_request 2000 ''QWERTY123''),
      (alice, Invest_request 10 invest_id
         (Some (alice_wallet 5000000 0)) lite_package)]"

section \<open>Auxiliary facts\<close>

subsection \<open>Casts\<close>

lemma round_half_away_to_number: "round_half_away (to_number c * 100) = c"
  by (simp add: round_half_away_def to_number_def)

lemma to_decimal_to_number: "to_decimal p (to_number c) = (if fits p c then Some c else None)"
  by (simp add: to_decimal_def round_half_away_to_number)

lemma to_decimal_zero: "to_decimal p 0 = Some 0"
  by (simp add: to_decimal_def round_half_away_def fits_def)

lemma to_number_diff: "to_number a - to_number b = to_number (a - b)"
  by (simp add: to_number_def diff_divide_distrib)

lemma to_number_sum: "to_number a + to_number b = to_number (a + b)"
  by (simp add: to_number_def add_divide_distrib)

lemma to_number_zero [simp]: "to_number 0 = 0"
  by (simp add: to_number_def)

lemma to_number_eq_zero: "to_number a = 0 \<longleftrightarrow> a = 0"
  by (simp add: to_number_def)

lemma to_number_le: "to_number a \<le> to_number b \<longleftrightarrow> a \<le> b"
  by (simp add: to_number_def divide_le_cancel)

lemma to_number_less: "to_number a < to_number b \<longleftrightarrow> a < b"
  by (simp add: to_number_def divide_less_cancel)

lemma to_number_nonpos: "to_number a \<le> 0 \<longleftrightarrow> a \<le> 0"
  using to_number_le [of a 0] by simp

lemma or_zero_Some: "or_zero (Some wd) field = to_number (field wd)"
  by (simp add: or_zero_def)

lemma round_half_away_nonpos: "x \<le> 0 \<Longrightarrow> round_half_away (x * 100) \<le> 0"
  by (auto simp: round_half_away_def not_le intro: order_trans)

lemma to_decimal_Some: "to_decimal p x = Some c \<longleftrightarrow> c = round_half_away (x * 100) \<and> fits p c"
  by (auto simp: to_decimal_def Let_def)

lemma transaction_type_in_Some:
  "transaction_type_in s = Some k \<longleftrightarrow> transaction_type_out k = s"
  by (cases k) (auto simp: transaction_type_in_def)

lemma transaction_type_in_transfer:
  "transaction_type_in ''referral_bonus_transfer'' = None"
  by (simp add: transaction_type_in_def)

lemma dispatch_table_out:
  "dispatch_table (transaction_type_out k) a =
     Some (case k of deposit \<Rightarrow> (a, 0, 0, 0) | withdrawal \<Rightarrow> (- a, 0, 0, 0)
           | investment \<Rightarrow> (- a, 0, a, 0) | profit \<Rightarrow> (a, 0, 0, a)
           | referral_commission \<Rightarrow> (0, a, 0, 0))"
  by (cases k) (simp_all add: dispatch_table_def)

lemma cast_column_to_number:
  "cast_column (Some (to_number c))
     = (if fits 15 c then Inr (Some c) else Inl numeric_value_out_of_range)"
  by (simp add: cast_column_def to_decimal_to_number)

lemma cast_column_None: "cast_column None = Inr None"
  by (simp add: cast_column_def)

subsection \<open>The trigger and the insert\<close>

lemmas sample_defs = alice_db_def alice_registered_def empty_db_def alice_wallet_def
  alice_row_def open_db_def

lemmas store_defs = insert_transaction_def cast_transaction_def transaction_type_in_def
  to_decimal_def round_half_away_def fits_def rls_permits_def update_wallet_balance_def
  update_checked_def update_where_def

lemmas handler_defs = handleInvest_def canInvest_def or_zero_def transferReferralBonus_def
  handleDeposit_def handleWithdraw_def handleUpdateProfile_def update_profiles_def
  insert_investment_def insert_deposit_def insert_withdrawal_def update_wallets_def
  cast_column_def coalesce_def to_number_def

lemmas package_defs = lite_package_def pro_package_def elite_package_def
  repriced_lite_package_def repriced_db_def migration_policies_def

lemma balances_update [simp]:
  "balances (w\<lparr>updated_at := t\<rparr>) = balances w"
  "balances (w\<lparr>main_balance := m\<rparr>)
     = (m, referral_bonus_balance w, total_invested w, total_profits w)"
  by (simp_all add: balances_def)

lemma trigger_Inr:
  assumes "update_wallet_balance TG_INSERT now NEW ws = Inr ws'"
  shows "\<exists>delta. dispatch_table (transaction_type_out (transaction_kind NEW)) (amount NEW)
                   = Some delta
           \<and> map balances ws'
               = map (\<lambda>w. if wallet_user_id w = transaction_user_id NEW
                           then add_delta (balances w) delta else balances w) ws
           \<and> map wallet_user_id ws' = map wallet_user_id ws
           \<and> ws' = update_where (\<lambda>w. wallet_user_id w = transaction_user_id NEW)
                     (\<lambda>w. w\<lparr>main_balance := fst (add_delta (balances w) delta),
                             referral_bonus_balance := fst (snd (add_delta (balances w) delta)),
                             total_invested := fst (snd (snd (add_delta (balances w) delta))),
                             total_profits := snd (snd (snd (add_delta (balances w) delta))),
                             updated_at := now\<rparr>) ws"
  using assms
  by (cases "transaction_kind NEW")
     (auto simp: update_wallet_balance_def update_checked_def update_where_def
        dispatch_table_def balances_def add_delta_def split: if_splits)

lemma trigger_accepts:
  assumes "dispatch_table (transaction_type_out (transaction_kind NEW)) (amount NEW) = Some delta"
    and "list_all (\<lambda>w. balances_fit (add_delta (balances w) delta))
           (filter (\<lambda>w. wallet_user_id w = transaction_user_id NEW) ws)"
  shows "\<exists>ws'. update_wallet_balance TG_INSERT now NEW ws = Inr ws'"
  using assms
  by (cases "transaction_kind NEW")
     (auto simp: update_wallet_balance_def update_checked_def dispatch_table_def
        balances_def add_delta_def balances_fit_def list_all_iff)

lemma trigger_Inr_fits:
  assumes "update_wallet_balance TG_INSERT now NEW ws = Inr ws'"
    and "list_all (\<lambda>w. balances_fit (balances w)) ws"
    and "dispatch_table (transaction_type_out (transaction_kind NEW)) (amount NEW) = Some delta"
  shows "list_all (\<lambda>w. balances_fit (add_delta (balances w) delta))
           (filter (\<lambda>w. wallet_user_id w = transaction_user_id NEW) ws)"
  using assms
  by (cases "transaction_kind NEW")
     (auto simp: update_wallet_balance_def update_checked_def dispatch_table_def
        balances_def add_delta_def balances_fit_def list_all_iff split: if_splits)

lemma trigger_Inl:
  "update_wallet_balance op now NEW ws = Inl e \<Longrightarrow> e = numeric_value_out_of_range"
  by (auto simp: update_wallet_balance_def update_checked_def split: if_splits)

lemma trigger_investment:
  assumes "update_wallet_balance TG_INSERT now NEW ws = Inr ws'"
    and "transaction_kind NEW = investment"
  shows "ws' = update_where (\<lambda>w. wallet_user_id w = transaction_user_id NEW)
                 (\<lambda>w. w\<lparr>main_balance := main_balance w - amount NEW,
                         total_invested := total_invested w + amount NEW,
                         updated_at := now\<rparr>) ws"
  using assms
  by (auto simp: update_wallet_balance_def update_checked_def split: if_splits)

lemma cast_transaction_Inr:
  "cast_transaction p = Inr NEW \<longleftrightarrow>
     transaction_type_out (transaction_kind NEW) = ins_type p
     \<and> to_decimal 15 (ins_amount p) = Some (amount NEW)
     \<and> to_decimal 15 (ins_balance_before p) = Some (balance_before NEW)
     \<and> to_decimal 15 (ins_balance_after p) = Some (balance_after NEW)
     \<and> transaction_user_id NEW = ins_user_id p
     \<and> description NEW = ins_description p
     \<and> reference_id NEW = ins_reference_id p"
  by (cases NEW)
     (auto simp: cast_transaction_def transaction_type_in_Some [symmetric]
        split: option.splits)

lemma cast_transaction_Inl:
  "cast_transaction p = Inl e \<Longrightarrow>
     (e = invalid_text_representation (ins_type p) \<and> transaction_type_in (ins_type p) = None)
     \<or> e = numeric_value_out_of_range"
  by (auto simp: cast_transaction_def split: option.splits)

lemma cast_transaction_user:
  "cast_transaction p = Inr NEW \<Longrightarrow> transaction_user_id NEW = ins_user_id p"
  by (simp add: cast_transaction_Inr)

lemma insert_transaction_Inr:
  assumes "insert_transaction r now p d = Inr d'"
  obtains NEW ws where "cast_transaction p = Inr NEW"
    and "rls_permits (policies d) r Transactions INSERT [ins_user_id p]"
    and "ins_user_id p \<in> set (users d)"
    and "update_wallet_balance TG_INSERT now NEW (wallets d) = Inr ws"
    and "d' = d\<lparr>transactions := transactions d @ [NEW], wallets := ws\<rparr>"
  using assms
  by (auto simp: insert_transaction_def cast_transaction_Inr split: sum.splits if_splits)

lemma insert_transaction_effect:
  assumes "insert_transaction r now p d = Inr d'"
  shows "\<exists>NEW delta. cast_transaction p = Inr NEW
           \<and> dispatch_table (ins_type p) (amount NEW) = Some delta
           \<and> transactions d' = transactions d @ [NEW]
           \<and> map balances (wallets d')
               = map (\<lambda>w. if wallet_user_id w = ins_user_id p
                           then add_delta (balances w) delta else balances w) (wallets d)
           \<and> map wallet_user_id (wallets d') = map wallet_user_id (wallets d)"
proof -
  from assms obtain NEW ws where c: "cast_transaction p = Inr NEW"
      and t: "update_wallet_balance TG_INSERT now NEW (wallets d) = Inr ws"
      and d': "d' = d\<lparr>transactions := transactions d @ [NEW], wallets := ws\<rparr>"
    by (rule insert_transaction_Inr)
  from c have k: "transaction_type_out (transaction_kind NEW) = ins_type p"
      and u: "transaction_user_id NEW = ins_user_id p"
    by (simp_all add: cast_transaction_Inr)
  from trigger_Inr [OF t] k u obtain delta where
      "dispatch_table (ins_type p) (amount NEW) = Some delta"
      "map balances ws
         = map (\<lambda>w. if wallet_user_id w = ins_user_id p
                     then add_delta (balances w) delta else balances w) (wallets d)"
      "map wallet_user_id ws = map wallet_user_id (wallets d)"
    by auto
  with c d' show ?thesis
    by (intro exI [of _ NEW] exI [of _ delta]) simp
qed

lemma insert_transaction_accepted_iff:
  assumes "wallets_in_range d"
  shows "(\<exists>d'. insert_transaction r now p d = Inr d') \<longleftrightarrow>
           (\<exists>NEW delta. cast_transaction p = Inr NEW
              \<and> rls_permits (policies d) r Transactions INSERT [ins_user_id p]
              \<and> ins_user_id p \<in> set (users d)
              \<and> dispatch_table (ins_type p) (amount NEW) = Some delta
              \<and> list_all (\<lambda>w. balances_fit (add_delta (balances w) delta))
                   (filter (\<lambda>w. wallet_user_id w = ins_user_id p) (wallets d)))"
proof
  assume "\<exists>d'. insert_transaction r now p d = Inr d'"
  then obtain d' where "insert_transaction r now p d = Inr d'" ..
  then obtain NEW ws where c: "cast_transaction p = Inr NEW"
      and rls: "rls_permits (policies d) r Transactions INSERT [ins_user_id p]"
      and fk: "ins_user_id p \<in> set (users d)"
      and t: "update_wallet_balance TG_INSERT now NEW (wallets d) = Inr ws"
    by (rule insert_transaction_Inr)
  from c have k: "transaction_type_out (transaction_kind NEW) = ins_type p"
      and u: "transaction_user_id NEW = ins_user_id p"
    by (simp_all add: cast_transaction_Inr)
  obtain delta where dl: "dispatch_table (ins_type p) (amount NEW) = Some delta"
    using dispatch_table_out [of "transaction_kind NEW" "amount NEW"] k by auto
  from assms have "list_all (\<lambda>w. balances_fit (balances w)) (wallets d)"
    by (simp add: wallets_in_range_def)
  from trigger_Inr_fits [OF t this] dl k u
  have "list_all (\<lambda>w. balances_fit (add_delta (balances w) delta))
          (filter (\<lambda>w. wallet_user_id w = ins_user_id p) (wallets d))"
    by simp
  with c rls fk dl
  show "\<exists>NEW delta. cast_transaction p = Inr NEW
              \<and> rls_permits (policies d) r Transactions INSERT [ins_user_id p]
              \<and> ins_user_id p \<in> set (users d)
              \<and> dispatch_table (ins_type p) (amount NEW) = Some delta
              \<and> list_all (\<lambda>w. balances_fit (add_delta (balances w) delta))
                   (filter (\<lambda>w. wallet_user_id w = ins_user_id p) (wallets d))"
    by blast
next
  assume "\<exists>NEW delta. cast_transaction p = Inr NEW
              \<and> rls_permits (policies d) r Transactions INSERT [ins_user_id p]
              \<and> ins_user_id p \<in> set (users d)
              \<and> dispatch_table (ins_type p) (amount NEW) = Some delta
              \<and> list_all (\<lambda>w. balances_fit (add_delta (balances w) delta))
                   (filter (\<lambda>w. wallet_user_id w = ins_user_id p) (wallets d))"
  then obtain NEW delta where c: "cast_transaction p = Inr NEW"
      and rls: "rls_permits (policies d) r Transactions INSERT [ins_user_id p]"
      and fk: "ins_user_id p \<in> set (users d)"
      and dl: "dispatch_table (ins_type p) (amount NEW) = Some delta"
      and fit: "list_all (\<lambda>w. balances_fit (add_delta (balances w) delta))
                   (filter (\<lambda>w. wallet_user_id w = ins_user_id p) (wallets d))"
    by blast
  from c have k: "transaction_type_out (transaction_kind NEW) = ins_type p"
      and u: "transaction_user_id NEW = ins_user_id p"
    by (simp_all add: cast_transaction_Inr)
  from trigger_accepts [of NEW delta "wallets d" now] dl fit k u
  obtain ws where "update_wallet_balance TG_INSERT now NEW (wallets d) = Inr ws"
    by auto
  with c rls fk u show "\<exists>d'. insert_transaction r now p d = Inr d'"
    by (simp add: insert_transaction_def)
qed

lemma insert_transaction_Inl:
  assumes "insert_transaction r now p d = Inl e"
  shows "(e = invalid_text_representation (ins_type p)
            \<and> transaction_type_in (ins_type p) = None)
         \<or> e = numeric_value_out_of_range
         \<or> (e = row_level_security_violation Transactions
              \<and> \<not> rls_permits (policies d) r Transactions INSERT [ins_user_id p])
         \<or> (e = foreign_key_violation ''transactions_user_id_fkey''
              \<and> ins_user_id p \<notin> set (users d))"
proof (cases "cast_transaction p")
  case (Inl e')
  with assms have "e' = e"
    by (simp add: insert_transaction_def)
  with cast_transaction_Inl [OF Inl] show ?thesis by blast
next
  case (Inr NEW)
  note u = cast_transaction_user [OF Inr]
  show ?thesis
  proof (cases "update_wallet_balance TG_INSERT now NEW (wallets d)")
    case (Inl e')
    from trigger_Inl [OF Inl] have "e' = numeric_value_out_of_range" .
    with assms Inr Inl u show ?thesis
      by (auto simp: insert_transaction_def split: if_splits)
  next
    case Inr2: (Inr ws)
    with assms Inr u show ?thesis
      by (auto simp: insert_transaction_def split: if_splits)
  qed
qed


lemma find_map_balances:
  assumes "map balances ws' = map (\<lambda>w. if wallet_user_id w = uid then f (balances w) else balances w) ws"
    and "map wallet_user_id ws' = map wallet_user_id ws"
    and "find (\<lambda>w. wallet_user_id w = uid) ws = Some w"
  shows "map_option balances (find (\<lambda>w. wallet_user_id w = uid) ws') = Some (f (balances w))"
  using assms
proof (induction ws arbitrary: ws')
  case Nil
  then show ?case by simp
next
  case (Cons a ws)
  then obtain b bs where ws': "ws' = b # bs"
    by (cases ws') auto
  with Cons show ?case
    by (auto split: if_splits)
qed


lemma find_of_single_filter: "filter P xs = [w] \<Longrightarrow> find P xs = Some w"
  by (induction xs) (auto split: if_splits)

lemma fetch_wallet_is_first_row:
  assumes "fetch_wallet r uid d = Some w"
    and "rls_permits (policies d) r Wallets SELECT [uid]"
  shows "wallet_of uid d = Some w"
proof -
  have "filter (\<lambda>w. wallet_user_id w = uid
                     \<and> rls_permits (policies d) r Wallets SELECT [wallet_user_id w])
          (wallets d) = filter (\<lambda>w. wallet_user_id w = uid) (wallets d)"
    using assms(2) by (intro filter_cong) auto
  with assms(1) have "filter (\<lambda>w. wallet_user_id w = uid) (wallets d) = [w]"
    by (auto simp: fetch_wallet_def split: list.splits)
  then have "find (\<lambda>w. wallet_user_id w = uid) (wallets d) = Some w"
    by (rule find_of_single_filter)
  then show ?thesis
    by (simp add: wallet_of_def)
qed

subsection \<open>The handlers\<close>

lemma transferReferralBonus_refused:
  "transferReferralBonus uid now walletData d =
     (if (case walletData of None \<Rightarrow> True | Some wd \<Rightarrow> referral_bonus_balance wd \<le> 0)
      then No_Bonus_Available else Transfer_Failed, d)"
  by (auto simp: transferReferralBonus_def insert_transaction_def cast_transaction_def
        transaction_type_in_def to_number_eq_zero to_number_nonpos split: option.splits)

lemma handleWithdraw_refuses:
  "fst (handleWithdraw uid walletData amt phone_no d) = Insufficient_Balance
     \<longleftrightarrow> (case walletData of None \<Rightarrow> True | Some wd \<Rightarrow> to_number (main_balance wd) < amt)"
  by (simp add: handleWithdraw_def split: option.splits sum.splits)

lemma handleInvest_refuses:
  "fst (handleInvest uid now new_id walletData packageData d) = Insufficient_Balance
     \<longleftrightarrow> (case walletData of None \<Rightarrow> True
          | Some wd \<Rightarrow> main_balance wd < minimum_amount packageData)"
  by (auto simp: handleInvest_def canInvest_def to_number_le Let_def
        split: option.splits sum.splits)

lemma handlers_refusing_write_nothing:
  "fst (handleWithdraw uid walletData amt phone_no d) = Insufficient_Balance
     \<Longrightarrow> snd (handleWithdraw uid walletData amt phone_no d) = d"
  "fst (handleInvest uid now new_id walletData packageData d) = Insufficient_Balance
     \<Longrightarrow> snd (handleInvest uid now new_id walletData packageData d) = d"
  by (auto simp: handleWithdraw_def handleInvest_def Let_def
        split: option.splits sum.splits if_splits)

lemma insert_investment_Inr:
  assumes "insert_investment r now new_id p d = Inr d1"
  shows "\<exists>a e. to_decimal 15 (inv_amount p) = Some a
           \<and> to_decimal 15 (inv_expected_return p) = Some e
           \<and> d1 = d\<lparr>investments := investments d @
                     [\<lparr>investment_id = new_id, investment_user_id = inv_user_id p,
                       investment_package_id = inv_package_id p,
                       investment_amount = a, expected_return = e,
                       investment_state = investment_active,
                       start_date = now, end_date = Some (inv_end_date p),
                       profit_distributed = 0\<rparr>]\<rparr>"
  using assms
  by (auto simp: insert_investment_def split: option.splits if_splits)

lemma update_wallets_invest:
  assumes "update_wallets r now uid
             \<lparr>upd_main_balance = Some (to_number m), upd_referral_bonus_balance = None,
              upd_total_invested = Some (to_number i), upd_total_profits = None\<rparr> d = Inr d'"
  shows "d' = d\<lparr>wallets :=
                 update_where
                   (\<lambda>w. wallet_user_id w = uid
                         \<and> rls_permits (policies d) r Wallets UPDATE [wallet_user_id w])
                   (\<lambda>w. w\<lparr>main_balance := m, total_invested := i, updated_at := now\<rparr>)
                   (wallets d)\<rparr>"
  using assms
  by (auto simp: update_wallets_def cast_column_to_number cast_column_None coalesce_def
        split: if_splits)

lemma handleInvest_success:
  assumes "handleInvest uid now new_id walletData packageData d = (Investment_Successful, d')"
  shows "\<exists>wd e. walletData = Some wd \<and> minimum_amount packageData \<le> main_balance wd
          \<and> to_decimal 15 (to_number (minimum_amount packageData)
                              * to_number (multiplier packageData)) = Some e
          \<and> d' = d\<lparr>investments := investments d @
                      [\<lparr>investment_id = new_id, investment_user_id = uid,
                        investment_package_id = package_id packageData,
                        investment_amount = minimum_amount packageData,
                        expected_return = e,
                        investment_state = investment_active,
                        start_date = now, end_date = Some (now + 365),
                        profit_distributed = 0\<rparr>],
                    transactions := transactions d @
                      [\<lparr>transaction_user_id = uid, transaction_kind = investment,
                        amount = minimum_amount packageData,
                        description =
                          ''Investment in '' @ package_name packageData @ '' package'',
                        reference_id = Some new_id,
                        balance_before = main_balance wd,
                        balance_after = main_balance wd - minimum_amount packageData\<rparr>],
                    wallets :=
                      update_where
                        (\<lambda>w. wallet_user_id w = uid
                              \<and> rls_permits (policies d) (Authenticated uid) Wallets UPDATE
                                   [wallet_user_id w])
                        (\<lambda>w. w\<lparr>main_balance := main_balance wd - minimum_amount packageData,
                                total_invested := total_invested wd + minimum_amount packageData,
                                updated_at := now\<rparr>)
                        (update_where (\<lambda>w. wallet_user_id w = uid)
                           (\<lambda>w. w\<lparr>main_balance := main_balance w - minimum_amount packageData,
                                   total_invested := total_invested w + minimum_amount packageData,
                                   updated_at := now\<rparr>)
                           (wallets d))\<rparr>"
proof -
  let ?min = "minimum_amount packageData"
  from assms obtain wd where wd: "walletData = Some wd"
      and enough: "?min \<le> main_balance wd"
    by (cases walletData)
       (auto simp: handleInvest_def canInvest_def to_number_le split: if_splits)
  let ?inv = "\<lparr>inv_user_id = uid, inv_package_id = package_id packageData,
               inv_amount = to_number ?min,
               inv_expected_return = to_number ?min * to_number (multiplier packageData),
               inv_end_date = now + 365\<rparr>"
  let ?txn = "\<lparr>ins_user_id = uid, ins_type = ''investment'',
               ins_amount = to_number ?min,
               ins_description = ''Investment in '' @ package_name packageData @ '' package'',
               ins_reference_id = Some new_id,
               ins_balance_before = to_number (main_balance wd),
               ins_balance_after = to_number (main_balance wd - ?min)\<rparr>"
  let ?upd = "\<lparr>upd_main_balance = Some (to_number (main_balance wd - ?min)),
               upd_referral_bonus_balance = None,
               upd_total_invested = Some (to_number (total_invested wd + ?min)),
               upd_total_profits = None\<rparr>"
  from assms wd obtain d1 d2 where
      s1: "insert_investment (Authenticated uid) now new_id ?inv d = Inr d1"
      and s2: "insert_transaction (Authenticated uid) now ?txn d1 = Inr d2"
      and s3: "update_wallets (Authenticated uid) now uid ?upd d2 = Inr d'"
    by (auto simp: handleInvest_def Let_def or_zero_Some to_number_diff to_number_sum
          split: if_splits sum.splits)
  from insert_investment_Inr [OF s1] obtain a e where
      a: "to_decimal 15 (to_number ?min) = Some a"
      and e: "to_decimal 15 (to_number ?min * to_number (multiplier packageData)) = Some e"
      and d1: "d1 = d\<lparr>investments := investments d @
                     [\<lparr>investment_id = new_id, investment_user_id = uid,
                       investment_package_id = package_id packageData,
                       investment_amount = a, expected_return = e,
                       investment_state = investment_active,
                       start_date = now, end_date = Some (now + 365),
                       profit_distributed = 0\<rparr>]\<rparr>"
    by auto
  from a have a': "a = ?min"
    by (simp add: to_decimal_to_number split: if_splits)
  from s2 obtain NEW ws where c: "cast_transaction ?txn = Inr NEW"
      and t: "update_wallet_balance TG_INSERT now NEW (wallets d1) = Inr ws"
      and d2: "d2 = d1\<lparr>transactions := transactions d1 @ [NEW], wallets := ws\<rparr>"
    by (rule insert_transaction_Inr)
  from c have NEW: "NEW = \<lparr>transaction_user_id = uid, transaction_kind = investment,
                        amount = ?min,
                        description =
                          ''Investment in '' @ package_name packageData @ '' package'',
                        reference_id = Some new_id,
                        balance_before = main_balance wd,
                        balance_after = main_balance wd - ?min\<rparr>"
    by (auto simp: cast_transaction_def transaction_type_in_def to_decimal_to_number
          split: if_splits)
  then have k: "transaction_kind NEW = investment" "transaction_user_id NEW = uid"
      "amount NEW = ?min"
    by simp_all
  from trigger_investment [OF t k(1)] k
  have ws: "ws = update_where (\<lambda>w. wallet_user_id w = uid)
                   (\<lambda>w. w\<lparr>main_balance := main_balance w - ?min,
                           total_invested := total_invested w + ?min,
                           updated_at := now\<rparr>) (wallets d1)"
    by simp
  from update_wallets_invest [OF s3]
  have d': "d' = d2\<lparr>wallets :=
                 update_where
                   (\<lambda>w. wallet_user_id w = uid
                         \<and> rls_permits (policies d2) (Authenticated uid) Wallets UPDATE
                              [wallet_user_id w])
                   (\<lambda>w. w\<lparr>main_balance := main_balance wd - ?min,
                           total_invested := total_invested wd + ?min, updated_at := now\<rparr>)
                   (wallets d2)\<rparr>" .
  show ?thesis
    using wd enough e
    by (intro exI [of _ wd] exI [of _ e]) (simp add: d' d2 ws d1 a' NEW)
qed

lemma handleInvest_succeeds:
  assumes wd: "walletData = Some wd"
    and enough: "minimum_amount packageData \<le> main_balance wd"
    and rls: "rls_permits (policies d) (Authenticated uid) Investments INSERT [uid]"
      "rls_permits (policies d) (Authenticated uid) Investments SELECT [uid]"
      "rls_permits (policies d) (Authenticated uid) Transactions INSERT [uid]"
    and user: "uid \<in> set (users d)"
    and pkg: "list_ex (\<lambda>k. package_id k = package_id packageData) (investment_packages d)"
    and fresh: "\<not> list_ex (\<lambda>i. investment_id i = new_id) (investments d)"
    and fit: "fits 15 (minimum_amount packageData)"
      "to_decimal 15 (to_number (minimum_amount packageData)
                        * to_number (multiplier packageData)) \<noteq> None"
      "fits 15 (main_balance wd)"
      "fits 15 (main_balance wd - minimum_amount packageData)"
      "fits 15 (total_invested wd + minimum_amount packageData)"
    and rows: "list_all (\<lambda>w. fits 15 (main_balance w - minimum_amount packageData)
                             \<and> fits 15 (total_invested w + minimum_amount packageData))
                 (filter (\<lambda>w. wallet_user_id w = uid) (wallets d))"
  shows "fst (handleInvest uid now new_id walletData packageData d) = Investment_Successful"
proof -
  let ?min = "minimum_amount packageData"
  from fit(2) obtain e where
      e: "to_decimal 15 (to_number ?min * to_number (multiplier packageData)) = Some e"
    by auto
  let ?d1 = "d\<lparr>investments := investments d @
                     [\<lparr>investment_id = new_id, investment_user_id = uid,
                       investment_package_id = package_id packageData,
                       investment_amount = ?min, expected_return = e,
                       investment_state = investment_active,
                       start_date = now, end_date = Some (now + 365),
                       profit_distributed = 0\<rparr>]\<rparr>"
  have s1: "insert_investment (Authenticated uid) now new_id
              \<lparr>inv_user_id = uid, inv_package_id = package_id packageData,
               inv_amount = to_number ?min,
               inv_expected_return = to_number ?min * to_number (multiplier packageData),
               inv_end_date = now + 365\<rparr> d = Inr ?d1"
    using rls user pkg fresh fit(1) e
    by (simp add: insert_investment_def to_decimal_to_number)
  let ?NEW = "\<lparr>transaction_user_id = uid, transaction_kind = investment,
                amount = ?min,
                description = ''Investment in '' @ package_name packageData @ '' package'',
                reference_id = Some new_id,
                balance_before = main_balance wd,
                balance_after = main_balance wd - ?min\<rparr>"
  let ?ws = "update_where (\<lambda>w. wallet_user_id w = uid)
               (\<lambda>w. w\<lparr>main_balance := main_balance w - ?min,
                       total_invested := total_invested w + ?min,
                       updated_at := now\<rparr>) (wallets d)"
  have s2: "insert_transaction (Authenticated uid) now
              \<lparr>ins_user_id = uid, ins_type = ''investment'',
               ins_amount = to_number ?min,
               ins_description = ''Investment in '' @ package_name packageData @ '' package'',
               ins_reference_id = Some new_id,
               ins_balance_before = to_number (main_balance wd),
               ins_balance_after = to_number (main_balance wd - ?min)\<rparr> ?d1
            = Inr (?d1\<lparr>transactions := transactions d @ [?NEW], wallets := ?ws\<rparr>)"
    using rls(3) user fit rows
    by (simp add: insert_transaction_def cast_transaction_def transaction_type_in_def
          to_decimal_to_number update_wallet_balance_def update_checked_def list_all_iff)
  have s3: "\<exists>d3. update_wallets (Authenticated uid) now uid
              \<lparr>upd_main_balance = Some (to_number (main_balance wd - ?min)),
               upd_referral_bonus_balance = None,
               upd_total_invested = Some (to_number (total_invested wd + ?min)),
               upd_total_profits = None\<rparr> d2 = Inr d3" for d2
    using fit by (simp add: update_wallets_def cast_column_to_number cast_column_None)
  from s3 [of "?d1\<lparr>transactions := transactions d @ [?NEW], wallets := ?ws\<rparr>"]
  obtain d3 where "update_wallets (Authenticated uid) now uid
              \<lparr>upd_main_balance = Some (to_number (main_balance wd - ?min)),
               upd_referral_bonus_balance = None,
               upd_total_invested = Some (to_number (total_invested wd + ?min)),
               upd_total_profits = None\<rparr>
              (?d1\<lparr>transactions := transactions d @ [?NEW], wallets := ?ws\<rparr>) = Inr d3" ..
  with s1 s2 wd enough show ?thesis
    by (simp add: handleInvest_def canInvest_def to_number_le Let_def or_zero_Some
          to_number_diff to_number_sum)
qed

lemma migration_policies_refuse:
  "\<not> rls_permits migration_policies (Authenticated uid) Transactions INSERT owners"
  by (simp add: rls_permits_def migration_policies_def)

lemma handleInvest_under_migration:
  assumes "policies d = migration_policies"
  shows "\<exists>invs. snd (handleInvest uid now new_id walletData packageData d)
                  = d\<lparr>investments := invs\<rparr>"
proof -
  have keep: "d = d\<lparr>investments := investments d\<rparr>"
    by simp
  have refused: "insert_transaction (Authenticated uid) now p d1 = Inr d2 \<Longrightarrow> False"
    if "policies d1 = migration_policies" for p d1 d2
    using that migration_policies_refuse [of uid "[ins_user_id p]"]
    by (auto elim!: insert_transaction_Inr)
  show ?thesis
  proof (cases "canInvest walletData packageData")
    case False
    with keep show ?thesis
      by (auto simp: handleInvest_def intro: exI [of _ "investments d"])
  next
    case True
    let ?inv = "\<lparr>inv_user_id = uid, inv_package_id = package_id packageData,
                 inv_amount = to_number (minimum_amount packageData),
                 inv_expected_return =
                   to_number (minimum_amount packageData) * to_number (multiplier packageData),
                 inv_end_date = now + 365\<rparr>"
    show ?thesis
    proof (cases "insert_investment (Authenticated uid) now new_id ?inv d")
      case (Inl e)
      with True keep show ?thesis
        by (auto simp: handleInvest_def Let_def intro: exI [of _ "investments d"])
    next
      case (Inr d1)
      from insert_investment_Inr [OF Inr] obtain invs where d1: "d1 = d\<lparr>investments := invs\<rparr>"
        by blast
      with assms have "policies d1 = migration_policies"
        by simp
      from refused [OF this]
      have no: "insert_transaction (Authenticated uid) now p d1 \<noteq> Inr d2" for p d2
        by blast
      have "snd (handleInvest uid now new_id walletData packageData d) = d1"
        using True Inr
        by (auto simp: handleInvest_def Let_def no split: sum.splits)
      with d1 show ?thesis
        by blast
    qed
  qed
qed

lemma handle_new_user_Inr:
  assumes "handle_new_user now NEW d = Inr d'"
  shows "d' = d\<lparr>profiles := profiles d',
                 wallets := wallets d @
                    [\<lparr>wallet_user_id = auth_id NEW, main_balance = 0,
                      referral_bonus_balance = 0, total_invested = 0, total_profits = 0,
                      updated_at = now\<rparr>]\<rparr>"
  using assms by (auto simp: handle_new_user_def Let_def split: if_splits)

subsection \<open>The sample states\<close>

lemma alice_ne_bob: "alice \<noteq> bob"
  by (simp add: alice_def bob_def)

lemma alice_db_in_range:
  "fits 15 m \<Longrightarrow> fits 15 r \<Longrightarrow> wallets_in_range (alice_db m r)"
  by (simp add: wallets_in_range_def sample_defs balances_fit_def balances_def fits_def)

lemma wallet_of_alice_db: "wallet_of alice (alice_db m r) = Some (alice_wallet m r)"
  by (simp add: wallet_of_def sample_defs)

lemma wallet_of_open_db: "wallet_of alice (open_db m r) = Some (alice_wallet m r)"
  by (simp add: wallet_of_def sample_defs)

lemma overdraft_run:
  "insert_transaction Service_role 4 overdraft (alice_db 10000 0)
     = Inr ((alice_db 10000 0)
              \<lparr>transactions := transactions (alice_db 10000 0) @
                 [\<lparr>transaction_user_id = alice, transaction_kind = withdrawal,
                   amount = 50000, description = ''Withdrawal'', reference_id = None,
                   balance_before = 10000, balance_after = - 40000\<rparr>],
               wallets := [(alice_wallet (- 40000) 0)\<lparr>updated_at := 4\<rparr>]\<rparr>)"
  by (simp add: overdraft_def sample_defs store_defs)

lemma deposit_250_run:
  "insert_transaction Service_role 4 deposit_250 (alice_db 10000 0)
     = Inr ((alice_db 10000 0)
              \<lparr>transactions := transactions (alice_db 10000 0) @
                 [\<lparr>transaction_user_id = alice, transaction_kind = deposit,
                   amount = 25000, description = ''Deposit'', reference_id = None,
                   balance_before = 10000, balance_after = 35000\<rparr>],
               wallets := [(alice_wallet 35000 0)\<lparr>updated_at := 4\<rparr>]\<rparr>)"
  by (simp add: deposit_250_def sample_defs store_defs)

lemma negative_deposit_run:
  "insert_transaction Service_role 4 negative_deposit (alice_db 10000 0)
     = Inr ((alice_db 10000 0)
              \<lparr>transactions := transactions (alice_db 10000 0) @
                 [\<lparr>transaction_user_id = alice, transaction_kind = deposit,
                   amount = - 5000, description = ''Deposit'', reference_id = None,
                   balance_before = 10000, balance_after = 5000\<rparr>],
               wallets := [(alice_wallet 5000 0)\<lparr>updated_at := 4\<rparr>]\<rparr>)"
  by (simp add: negative_deposit_def sample_defs store_defs)

lemma invest_lite_open:
  "handleInvest alice 10 invest_id (Some (alice_wallet 5000000 0)) lite_package
       (open_db 5000000 0)
     = (Investment_Successful,
        (open_db 5000000 0)
          \<lparr>investments :=
             [\<lparr>investment_id = invest_id, investment_user_id = alice,
               investment_package_id = package_id lite_package,
               investment_amount = 1000000, expected_return = 3000000,
               investment_state = investment_active,
               start_date = 10, end_date = Some 375, profit_distributed = 0\<rparr>],
           transactions := transactions (open_db 5000000 0) @
             [\<lparr>transaction_user_id = alice, transaction_kind = investment, amount = 1000000,
               description = ''Investment in Lite Package package'',
               reference_id = Some invest_id,
               balance_before = 5000000, balance_after = 4000000\<rparr>],
           wallets :=
             [\<lparr>wallet_user_id = alice, main_balance = 4000000, referral_bonus_balance = 0,
               total_invested = 1000000, total_profits = 0, updated_at = 10\<rparr>]\<rparr>)"
  by (simp add: sample_defs store_defs handler_defs package_defs)



subsection \<open>Sums over the log\<close>

lemma amount_sum_snoc:
  "amount_sum uid kind (ts @ [t]) =
     amount_sum uid kind ts
       + (if transaction_user_id t = uid \<and> transaction_type_out (transaction_kind t) = kind
          then amount t else 0)"
  by (simp add: amount_sum_def)

lemma transaction_type_out_not_transfer:
  "transaction_type_out k \<noteq> ''referral_bonus_transfer''"
  by (cases k) simp_all

lemma amount_sum_transfer: "amount_sum uid ''referral_bonus_transfer'' ts = 0"
  by (simp add: amount_sum_def transaction_type_out_not_transfer)

lemma amount_sum_stranger:
  "list_all (\<lambda>t. transaction_user_id t \<noteq> uid) ts \<Longrightarrow> amount_sum uid kind ts = 0"
  by (induction ts) (simp_all add: amount_sum_def)

lemma spec_invariant_insert:
  assumes "spec_ledger_invariant d" and "insert_transaction r now p d = Inr d'"
  shows "spec_ledger_invariant d'"
proof -
  from assms(2) obtain NEW ws where
      t: "update_wallet_balance TG_INSERT now NEW (wallets d) = Inr ws"
      and d': "d' = d\<lparr>transactions := transactions d @ [NEW], wallets := ws\<rparr>"
    by (rule insert_transaction_Inr)
  from trigger_Inr [OF t] obtain delta where
      dl: "dispatch_table (transaction_type_out (transaction_kind NEW)) (amount NEW)
             = Some delta"
      and ws: "ws = update_where (\<lambda>w. wallet_user_id w = transaction_user_id NEW)
                     (\<lambda>w. w\<lparr>main_balance := fst (add_delta (balances w) delta),
                             referral_bonus_balance := fst (snd (add_delta (balances w) delta)),
                             total_invested := fst (snd (snd (add_delta (balances w) delta))),
                             total_profits := snd (snd (snd (add_delta (balances w) delta))),
                             updated_at := now\<rparr>) (wallets d)"
    by blast
  have one: "(let s = (\<lambda>kind. amount_sum (wallet_user_id w') kind (transactions d @ [NEW])) in
             main_balance w'
               = s ''deposit'' + s ''profit'' - s ''withdrawal'' - s ''investment''
             \<and> referral_bonus_balance w'
                 = s ''referral_commission'' - s ''referral_bonus_transfer''
             \<and> total_invested w' = s ''investment''
             \<and> total_profits w' = s ''profit'')"
    if w: "w \<in> set (wallets d)"
      and w': "w' = (if wallet_user_id w = transaction_user_id NEW
                    then w\<lparr>main_balance := fst (add_delta (balances w) delta),
                           referral_bonus_balance := fst (snd (add_delta (balances w) delta)),
                           total_invested := fst (snd (snd (add_delta (balances w) delta))),
                           total_profits := snd (snd (snd (add_delta (balances w) delta))),
                           updated_at := now\<rparr>
                    else w)"
    for w w'
  proof -
    from assms(1) w have old:
      "main_balance w
         = amount_sum (wallet_user_id w) ''deposit'' (transactions d)
           + amount_sum (wallet_user_id w) ''profit'' (transactions d)
           - amount_sum (wallet_user_id w) ''withdrawal'' (transactions d)
           - amount_sum (wallet_user_id w) ''investment'' (transactions d)"
      "referral_bonus_balance w
         = amount_sum (wallet_user_id w) ''referral_commission'' (transactions d)"
      "total_invested w = amount_sum (wallet_user_id w) ''investment'' (transactions d)"
      "total_profits w = amount_sum (wallet_user_id w) ''profit'' (transactions d)"
      by (simp_all add: spec_ledger_invariant_def list_all_iff Let_def amount_sum_transfer)
    show ?thesis
      using dl unfolding w' Let_def
      by (cases "transaction_kind NEW")
         (auto simp: old dispatch_table_def add_delta_def balances_def amount_sum_snoc
            amount_sum_transfer)
  qed
  have "list_all
          (\<lambda>w'. let s = (\<lambda>kind. amount_sum (wallet_user_id w') kind (transactions d @ [NEW])) in
             main_balance w'
               = s ''deposit'' + s ''profit'' - s ''withdrawal'' - s ''investment''
             \<and> referral_bonus_balance w'
                 = s ''referral_commission'' - s ''referral_bonus_transfer''
             \<and> total_invested w' = s ''investment''
             \<and> total_profits w' = s ''profit'') ws"
    unfolding ws update_where_def list_all_iff
  proof
    fix w'
    assume "w' \<in> set (map (\<lambda>w. if wallet_user_id w = transaction_user_id NEW
                    then w\<lparr>main_balance := fst (add_delta (balances w) delta),
                           referral_bonus_balance := fst (snd (add_delta (balances w) delta)),
                           total_invested := fst (snd (snd (add_delta (balances w) delta))),
                           total_profits := snd (snd (snd (add_delta (balances w) delta))),
                           updated_at := now\<rparr>
                    else w) (wallets d))"
    then obtain w where "w \<in> set (wallets d)"
        and "w' = (if wallet_user_id w = transaction_user_id NEW
                    then w\<lparr>main_balance := fst (add_delta (balances w) delta),
                           referral_bonus_balance := fst (snd (add_delta (balances w) delta)),
                           total_invested := fst (snd (snd (add_delta (balances w) delta))),
                           total_profits := snd (snd (snd (add_delta (balances w) delta))),
                           updated_at := now\<rparr>
                    else w)"
      by auto
    then show "let s = (\<lambda>kind. amount_sum (wallet_user_id w') kind (transactions d @ [NEW])) in
             main_balance w'
               = s ''deposit'' + s ''profit'' - s ''withdrawal'' - s ''investment''
             \<and> referral_bonus_balance w'
                 = s ''referral_commission'' - s ''referral_bonus_transfer''
             \<and> total_invested w' = s ''investment''
             \<and> total_profits w' = s ''profit''"
      by (rule one)
  qed
  then show ?thesis
    by (simp add: spec_ledger_invariant_def d')
qed

lemma ledger_step_keeps:
  assumes "spec_ledger_invariant d"
    and "list_all (\<lambda>t. transaction_user_id t \<in> set (users d)) (transactions d)"
    and "policies d = migration_policies"
  shows "spec_ledger_invariant (ledger_step ev d)
         \<and> list_all (\<lambda>t. transaction_user_id t \<in> set (users (ledger_step ev d)))
              (transactions (ledger_step ev d))
         \<and> policies (ledger_step ev d) = migration_policies"
proof (cases ev)
  case (Register now NEW)
  show ?thesis
  proof (cases "on_auth_user_created now NEW d")
    case (Inl e)
    with Register assms show ?thesis by simp
  next
    case (Inr d')
    then have new: "auth_id NEW \<notin> set (users d)"
        and run: "handle_new_user now NEW (d\<lparr>users := users d @ [auth_id NEW]\<rparr>) = Inr d'"
      by (auto simp: on_auth_user_created_def split: if_splits)
    from handle_new_user_Inr [OF run]
    have d': "d' = d\<lparr>users := users d @ [auth_id NEW], profiles := profiles d',
                     wallets := wallets d @
                        [\<lparr>wallet_user_id = auth_id NEW, main_balance = 0,
                          referral_bonus_balance = 0, total_invested = 0, total_profits = 0,
                          updated_at = now\<rparr>]\<rparr>"
      by simp
    from new assms(2) have "list_all (\<lambda>t. transaction_user_id t \<noteq> auth_id NEW) (transactions d)"
      by (auto simp: list_all_iff)
    then have zero: "amount_sum (auth_id NEW) kind (transactions d) = 0" for kind
      by (rule amount_sum_stranger)
    have a: "spec_ledger_invariant d'"
      using assms(1) by (subst d') (simp add: spec_ledger_invariant_def zero)
    have b: "list_all (\<lambda>t. transaction_user_id t \<in> set (users d')) (transactions d')"
      using assms(2) by (subst (1 2) d') (auto simp: list_all_iff)
    have c: "policies d' = migration_policies"
      using assms(3) by (subst d') simp
    from a b c Register Inr show ?thesis by simp
  qed
next
  case (Record r now p)
  show ?thesis
  proof (cases "insert_transaction r now p d")
    case (Inl e)
    with Record assms show ?thesis by simp
  next
    case (Inr d')
    then obtain NEW ws where c: "cast_transaction p = Inr NEW"
        and fk: "ins_user_id p \<in> set (users d)"
        and d': "d' = d\<lparr>transactions := transactions d @ [NEW], wallets := ws\<rparr>"
      by (rule insert_transaction_Inr)
    from c fk have "transaction_user_id NEW \<in> set (users d)"
      by (simp add: cast_transaction_Inr)
    with assms(2,3) d' have "list_all (\<lambda>t. transaction_user_id t \<in> set (users d')) (transactions d')"
        and "policies d' = migration_policies"
      by simp_all
    with spec_invariant_insert [OF assms(1) Inr] Record Inr show ?thesis by simp
  qed
next
  case (Invest uid now new_id walletData packageData)
  from handleInvest_under_migration [OF assms(3), of uid now new_id walletData packageData]
  obtain invs where "snd (handleInvest uid now new_id walletData packageData d)
                       = d\<lparr>investments := invs\<rparr>" ..
  with Invest assms show ?thesis
    by (simp add: spec_ledger_invariant_def)
next
  case (Transfer uid now walletData)
  with assms show ?thesis
    by (simp add: transferReferralBonus_refused)
qed

lemma ledger_run_keeps:
  assumes "spec_ledger_invariant d"
    and "list_all (\<lambda>t. transaction_user_id t \<in> set (users d)) (transactions d)"
    and "policies d = migration_policies"
  shows "spec_ledger_invariant (ledger_run events d)"
  using assms
proof (induction events arbitrary: d)
  case Nil
  then show ?case by simp
next
  case (Cons ev events)
  from ledger_step_keeps [OF Cons.prems, of ev] Cons.IH [of "ledger_step ev d"]
  show ?case by simp
qed

subsection \<open>Requests and the log\<close>

lemma no_write_policy_denies:
  assumes "no_write_policy_on_transactions ps"
  shows "\<not> rls_permits ps (Authenticated uid) Transactions UPDATE owners"
    and "\<not> rls_permits ps (Authenticated uid) Transactions DELETE owners"
  using assms
  by (auto simp: no_write_policy_on_transactions_def rls_permits_def list_all_iff list_ex_iff)

lemma insert_transaction_grows:
  "prefix (transactions d) (transactions (case insert_transaction r now p d of
                                            Inl e \<Rightarrow> d | Inr d' \<Rightarrow> d'))
   \<and> policies (case insert_transaction r now p d of Inl e \<Rightarrow> d | Inr d' \<Rightarrow> d') = policies d"
  by (cases "insert_transaction r now p d") (auto elim!: insert_transaction_Inr)

lemma update_wallets_keeps:
  "transactions (case update_wallets r now uid upd d of Inl e \<Rightarrow> d | Inr d' \<Rightarrow> d')
     = transactions d
   \<and> policies (case update_wallets r now uid upd d of Inl e \<Rightarrow> d | Inr d' \<Rightarrow> d') = policies d"
  by (auto simp: update_wallets_def split: sum.splits)

lemma handleInvest_grows:
  "prefix (transactions d)
     (transactions (snd (handleInvest uid now new_id walletData packageData d)))
   \<and> policies (snd (handleInvest uid now new_id walletData packageData d)) = policies d"
proof (cases "canInvest walletData packageData")
  case False
  then show ?thesis
    by (simp add: handleInvest_def)
next
  case True
  let ?inv = "\<lparr>inv_user_id = uid, inv_package_id = package_id packageData,
               inv_amount = to_number (minimum_amount packageData),
               inv_expected_return =
                 to_number (minimum_amount packageData) * to_number (multiplier packageData),
               inv_end_date = now + 365\<rparr>"
  let ?txn = "\<lparr>ins_user_id = uid, ins_type = ''investment'',
               ins_amount = to_number (minimum_amount packageData),
               ins_description = ''Investment in '' @ package_name packageData @ '' package'',
               ins_reference_id = Some new_id,
               ins_balance_before = or_zero walletData main_balance,
               ins_balance_after =
                 or_zero walletData main_balance - to_number (minimum_amount packageData)\<rparr>"
  let ?upd = "\<lparr>upd_main_balance =
                 Some (or_zero walletData main_balance
                         - to_number (minimum_amount packageData)),
               upd_referral_bonus_balance = None,
               upd_total_invested =
                 Some (or_zero walletData total_invested
                         + to_number (minimum_amount packageData)),
               upd_total_profits = None\<rparr>"
  show ?thesis
  proof (cases "insert_investment (Authenticated uid) now new_id ?inv d")
    case (Inl e)
    with True show ?thesis
      by (simp add: handleInvest_def Let_def)
  next
    case (Inr d1)
    from insert_investment_Inr [OF Inr]
    have d1: "transactions d1 = transactions d" "policies d1 = policies d"
      by auto
    show ?thesis
    proof (cases "insert_transaction (Authenticated uid) now ?txn d1")
      case (Inl e)
      with True Inr d1 show ?thesis
        by (simp add: handleInvest_def Let_def)
    next
      case d2: (Inr d2)
      from insert_transaction_grows [where d = d1 and r = "Authenticated uid" and now = now and p = ?txn] d2 d1
      have g: "prefix (transactions d) (transactions d2)" "policies d2 = policies d"
        by simp_all
      from update_wallets_keeps [where r = "Authenticated uid" and now = now and uid = uid and upd = ?upd and d = d2] g
      have "prefix (transactions d)
              (transactions (case update_wallets (Authenticated uid) now uid ?upd d2 of
                               Inl e \<Rightarrow> d2 | Inr d' \<Rightarrow> d'))"
          "policies (case update_wallets (Authenticated uid) now uid ?upd d2 of
                       Inl e \<Rightarrow> d2 | Inr d' \<Rightarrow> d') = policies d"
        by simp_all
      with True Inr d2 show ?thesis
        by (simp add: handleInvest_def Let_def split: sum.splits)
    qed
  qed
qed

lemma user_step_grows:
  assumes "no_write_policy_on_transactions (policies d)"
  shows "prefix (transactions d) (transactions (user_step uid req d))
         \<and> policies (user_step uid req d) = policies d"
proof (cases req)
  case (Deposit_request amt reference)
  then show ?thesis
    by (simp add: handleDeposit_def insert_deposit_def split: option.splits)
next
  case (Withdraw_request walletData amt phone_no)
  then show ?thesis
    by (simp add: handleWithdraw_def insert_withdrawal_def split: option.splits)
next
  case (Invest_request now new_id walletData packageData)
  with handleInvest_grows [of d uid now new_id walletData packageData] show ?thesis
    by simp
next
  case (Transfer_request now walletData)
  then show ?thesis
    by (simp add: transferReferralBonus_refused)
next
  case (Profile_request name phone_no mail)
  then show ?thesis
    by (simp add: handleUpdateProfile_def update_profiles_def)
next
  case (Insert_transaction_request now p)
  with insert_transaction_grows [where d = d and r = "Authenticated uid" and now = now and p = p] show ?thesis
    by simp
next
  case (Update_transactions_request cond f)
  with no_write_policy_denies(1) [OF assms] show ?thesis
    by (simp add: update_transactions_def update_where_def)
next
  case (Delete_transactions_request cond)
  with no_write_policy_denies(2) [OF assms] show ?thesis
    by (simp add: delete_transactions_def)
next
  case (Update_wallet_request now upd)
  with update_wallets_keeps [where r = "Authenticated uid" and now = now and uid = uid and upd = upd and d = d] show ?thesis
    by simp
qed

lemma sample_requests_run:
  "transactions (user_steps sample_requests (open_db 5000000 0)) =
     transactions (open_db 5000000 0) @
     [\<lparr>transaction_user_id = alice, transaction_kind = investment, amount = 1000000,
       description = ''Investment in Lite Package package'',
       reference_id = Some invest_id,
       balance_before = 5000000, balance_after = 4000000\<rparr>]"
  by (simp add: sample_requests_def sample_defs store_defs handler_defs package_defs
        update_transactions_def delete_transactions_def)

subsection \<open>\<open>MD5\<close> of the sample ids\<close>

text \<open>
  Evaluating \<open>MD5\<close>: the test vector of RFC 1321 and the two sample ids, whose digests
  share their first six digits.
\<close>

lemma replicate_numeral: "replicate (numeral k) x = x # replicate (pred_numeral k) x"
  by (simp add: numeral_eq_Suc)

lemma chunks_numeral:
  "chunks (numeral k) n xs = take n xs # chunks (pred_numeral k) n (drop n xs)"
  by (simp add: numeral_eq_Suc)

lemmas md5_eval = md5_def md5_pad_def md5_block_def md5_step_def md5_K_def md5_s_def
  rotl32_def hex_le_def hex_byte_def hex_digit_def upt_rec replicate_numeral chunks_numeral

lemma md5_abc: "md5 ''abc'' = ''900150983cd24fb0d6963f7d28e17f72''"
  by (simp add: md5_eval)

lemma md5_alice: "md5 alice = ''51feb6a15e1b341d6ac6114d380c659f''"
  unfolding alice_def by (simp add: md5_eval)

lemma md5_bob: "md5 bob = ''51feb6c19738d95e086ea5804b55b07f''"
  unfolding bob_def by (simp add: md5_eval)

lemma ref_code_alice: "ref_code_of alice = ''NA51FEB6''"
  by (simp add: ref_code_of_def md5_alice upper_def upper_char_def substring_def
        char_of_eq_iff)

lemma ref_code_bob: "ref_code_of bob = ''NA51FEB6''"
  by (simp add: ref_code_of_def md5_bob upper_def upper_char_def substring_def
        char_of_eq_iff)

lemma length_hex_le: "length (hex_le w) = 8"
  by (simp add: hex_le_def hex_byte_def upt_rec)

lemma length_md5: "length (md5 s) = 32"
  by (simp add: md5_def Let_def length_hex_le split: prod.splits)

lemma length_ref_code_of: "length (ref_code_of uid) = 8"
  by (simp add: ref_code_of_def upper_def substring_def length_md5)

lemma register_alice: "on_auth_user_created 1 alice_user empty_db = Inr alice_registered"
  by (simp add: on_auth_user_created_def handle_new_user_def empty_db_def alice_user_def
        alice_registered_def ref_code_alice coalesce_def)

lemma alice_history_run:
  "ledger_run (alice_history 5000000 20000) empty_db = alice_db 5000000 20000"
proof -
  have "ledger_step (Register 1 alice_user) empty_db = alice_registered"
    by (simp add: register_alice)
  moreover have "ledger_step (Record Service_role 2 (back_office_row ''deposit'' 5000000))
                   alice_registered
                 = alice_registered
                     \<lparr>wallets := [(alice_wallet 5000000 0)\<lparr>updated_at := 2\<rparr>],
                      transactions := [alice_row deposit 5000000]\<rparr>"
    by (simp add: back_office_row_def alice_row_def alice_wallet_def alice_registered_def
          empty_db_def insert_transaction_def cast_transaction_def transaction_type_in_def
          to_decimal_to_number to_decimal_zero fits_def rls_permits_def update_wallet_balance_def
          update_checked_def update_where_def)
  moreover have "ledger_step (Record Service_role 3 (back_office_row ''referral_commission'' 20000))
                   (alice_registered
                     \<lparr>wallets := [(alice_wallet 5000000 0)\<lparr>updated_at := 2\<rparr>],
                      transactions := [alice_row deposit 5000000]\<rparr>)
                 = alice_db 5000000 20000"
    by (simp add: back_office_row_def alice_row_def alice_wallet_def alice_registered_def
          alice_db_def
          empty_db_def insert_transaction_def cast_transaction_def transaction_type_in_def
          to_decimal_to_number to_decimal_zero fits_def rls_permits_def update_wallet_balance_def
          update_checked_def update_where_def)
  ultimately show ?thesis
    by (simp add: alice_history_def)
qed

section \<open>The ledger invariant\<close>

text \<open>
  C1: for every user and after any finite sequence of recorded transactions, the wallet
  balances equal the signed sums over that user's transaction log: \<open>main_balance\<close> is
  the deposits plus the profits minus the withdrawals minus the investments,
  \<open>referral_bonus_balance\<close> is the referral commissions minus the referral bonus
  transfers, \<open>total_invested\<close> is the investments and \<open>total_profits\<close> is the profits.
  The sequence starts in the database the migrations create and is any list of
  registrations, of inserts into \<open>transactions\<close> by any role, each with its trigger, and
  of runs of the two handlers that write to \<open>transactions\<close>; a refused statement records
  nothing. The store holds no row of kind \<open>referral_bonus_transfer\<close>, so that sum is 0
  throughout. An \<open>UPDATE\<close> of a wallet row sent by its owner without a transaction, which
  the policy on \<open>wallets\<close> admits, is no recorded transaction and is not part of the
  sequence.
\<close>

theorem ledger_invariant_kept:
  "spec_ledger_invariant (ledger_run events empty_db)"
  by (rule ledger_run_keeps) (simp_all add: spec_ledger_invariant_def empty_db_def)

text \<open>
  An instance: a registration, a deposit of \<open>50000.00\<close> and a referral commission of
  \<open>200.00\<close> lead to \<open>alice_db 5000000 20000\<close>, whose balances are those sums.
\<close>

theorem ledger_invariant_kept_witness:
  "ledger_run (alice_history 5000000 20000) empty_db = alice_db 5000000 20000
   \<and> spec_ledger_invariant (alice_db 5000000 20000)
   \<and> map balances (wallets (alice_db 5000000 20000)) = [(5000000, 20000, 0, 0)]
   \<and> map amount (transactions (alice_db 5000000 20000)) = [5000000, 20000]"
  using ledger_invariant_kept [of "alice_history 5000000 20000"]
  by (simp add: alice_history_run) (simp add: sample_defs balances_def)

section \<open>The dispatch of the trigger\<close>

text \<open>
  C2 asks that recording a transaction of each of the six kinds changes the wallet by the
  row of the dispatch table for that kind. For the sixth kind the store does not:
  \<open>referral_bonus_transfer\<close> is no label of the enum \<open>transaction_type\<close> that the
  migration creates, so the insert of such a row, here of \<open>100.00\<close> for a user whose
  referral bonus is \<open>500.00\<close> and sent by the service role, is refused with
  \<open>invalid_text_representation\<close> and moves nothing, where the table asks for \<open>100.00\<close>
  more of \<open>main_balance\<close> and \<open>100.00\<close> less of \<open>referral_bonus_balance\<close>. The page
  \<open>Referrals.tsx\<close> sends rows of that kind, and the type declarations generated for the
  pages list the label.
\<close>

theorem transfer_kind_refused:
  "dispatch_table ''referral_bonus_transfer'' 10000 = Some (10000, - 10000, 0, 0)
   \<and> map balances (wallets (alice_db 0 50000)) = [(0, 50000, 0, 0)]
   \<and> insert_transaction Service_role 4
        \<lparr>ins_user_id = alice, ins_type = ''referral_bonus_transfer'', ins_amount = 100,
         ins_description = ''Referral bonus transfer to main balance'',
         ins_reference_id = None, ins_balance_before = 0, ins_balance_after = 100\<rparr>
        (alice_db 0 50000)
       = Inl (invalid_text_representation ''referral_bonus_transfer'')"
  by (simp add: dispatch_table_def sample_defs balances_def insert_transaction_def
        cast_transaction_def transaction_type_in_def)

text \<open>
  For the five kinds of the enum the store does what C2 asks: an accepted insert appends
  the row, its amount rounded to two places, and the trigger changes the four balances of
  each wallet row of that user by exactly the deltas the dispatch table gives for the
  kind and that amount, and changes the balances of no other wallet row.
\<close>

theorem recorded_kinds_follow_dispatch_table:
  assumes "insert_transaction r now p d = Inr d'"
  shows "\<exists>NEW delta. cast_transaction p = Inr NEW
           \<and> transaction_type_in (ins_type p) = Some (transaction_kind NEW)
           \<and> amount NEW = round_half_away (ins_amount p * 100)
           \<and> dispatch_table (ins_type p) (amount NEW) = Some delta
           \<and> transactions d' = transactions d @ [NEW]
           \<and> map balances (wallets d')
               = map (\<lambda>w. if wallet_user_id w = ins_user_id p
                           then add_delta (balances w) delta else balances w) (wallets d)
           \<and> map wallet_user_id (wallets d') = map wallet_user_id (wallets d)"
proof -
  from insert_transaction_effect [OF assms] obtain NEW delta where
      c: "cast_transaction p = Inr NEW"
      and rest: "dispatch_table (ins_type p) (amount NEW) = Some delta"
        "transactions d' = transactions d @ [NEW]"
        "map balances (wallets d')
           = map (\<lambda>w. if wallet_user_id w = ins_user_id p
                       then add_delta (balances w) delta else balances w) (wallets d)"
        "map wallet_user_id (wallets d') = map wallet_user_id (wallets d)"
    by blast
  from c have "transaction_type_in (ins_type p) = Some (transaction_kind NEW)"
      and "amount NEW = round_half_away (ins_amount p * 100)"
    by (simp_all add: cast_transaction_Inr transaction_type_in_Some to_decimal_Some)
  with c rest show ?thesis
    by (intro exI [of _ NEW] exI [of _ delta]) simp
qed

text \<open>
  An instance: a deposit of \<open>250.00\<close> on a main balance of \<open>100.00\<close>.
\<close>

theorem recorded_kinds_follow_dispatch_table_witness:
  "insert_transaction Service_role 4 deposit_250 (alice_db 10000 0)
     = Inr ((alice_db 10000 0)
              \<lparr>transactions := transactions (alice_db 10000 0) @
                 [\<lparr>transaction_user_id = alice, transaction_kind = deposit,
                   amount = 25000, description = ''Deposit'', reference_id = None,
                   balance_before = 10000, balance_after = 35000\<rparr>],
               wallets := [(alice_wallet 35000 0)\<lparr>updated_at := 4\<rparr>]\<rparr>)
   \<and> dispatch_table ''deposit'' 25000 = Some (25000, 0, 0, 0)
   \<and> map balances (wallets (alice_db 10000 0)) = [(10000, 0, 0, 0)]
   \<and> map balances [(alice_wallet 35000 0)\<lparr>updated_at := 4\<rparr>]
       = [add_delta (10000, 0, 0, 0) (25000, 0, 0, 0)]"
proof -
  from recorded_kinds_follow_dispatch_table [OF deposit_250_run]
  obtain NEW :: transaction_row and delta where
      "amount NEW = round_half_away (ins_amount deposit_250 * 100)"
      "dispatch_table (ins_type deposit_250) (amount NEW) = Some delta"
      "map balances (wallets ((alice_db 10000 0)
              \<lparr>transactions := transactions (alice_db 10000 0) @
                 [\<lparr>transaction_user_id = alice, transaction_kind = deposit,
                   amount = 25000, description = ''Deposit'', reference_id = None,
                   balance_before = 10000, balance_after = 35000\<rparr>],
               wallets := [(alice_wallet 35000 0)\<lparr>updated_at := 4\<rparr>]\<rparr>))
         = map (\<lambda>w. if wallet_user_id w = ins_user_id deposit_250
                     then add_delta (balances w) delta else balances w)
             (wallets (alice_db 10000 0))"
    by blast
  then have "dispatch_table ''deposit'' 25000 = Some delta"
      and "map balances [(alice_wallet 35000 0)\<lparr>updated_at := 4\<rparr>]
             = [add_delta (10000, 0, 0, 0) delta]"
    by (simp_all add: deposit_250_def round_half_away_def sample_defs balances_def)
  moreover have "dispatch_table ''deposit'' 25000 = Some (25000, 0, 0, 0)"
    by (simp add: dispatch_table_def)
  moreover have "map balances (wallets (alice_db 10000 0)) = [(10000, 0, 0, 0)]"
    by (simp add: sample_defs balances_def)
  ultimately show ?thesis
    using deposit_250_run by simp
qed

section \<open>Funds and amounts are not checked by the store\<close>

text \<open>
  C3, as the specification states it, fails: a withdrawal of \<open>500.00\<close> recorded against
  a main balance of \<open>100.00\<close> is accepted and leaves \<open>main_balance\<close> at \<open>- 400.00\<close>.
\<close>

theorem withdrawal_overdraws:
  "map main_balance (wallets (alice_db 10000 0)) = [10000]
   \<and> insert_transaction Service_role 4
        \<lparr>ins_user_id = alice, ins_type = ''withdrawal'', ins_amount = 500,
         ins_description = ''Withdrawal'', ins_reference_id = None,
         ins_balance_before = 100, ins_balance_after = - 400\<rparr>
        (alice_db 10000 0)
       = Inr ((alice_db 10000 0)
                \<lparr>transactions := transactions (alice_db 10000 0) @
                   [\<lparr>transaction_user_id = alice, transaction_kind = withdrawal,
                     amount = 50000, description = ''Withdrawal'', reference_id = None,
                     balance_before = 10000, balance_after = - 40000\<rparr>],
                 wallets := [(alice_wallet (- 40000) 0)\<lparr>updated_at := 4\<rparr>]\<rparr>)"
  using overdraft_run by (simp add: overdraft_def sample_defs)

text \<open>
  C3, amended: the store has no error \<open>InsufficientFunds\<close> and makes no check of funds.
  With every stored balance in the range of its column, the insert of a withdrawal or of
  an investment is accepted exactly when its values can be cast, a policy admits the
  caller, the user exists and the balances the trigger assigns fit \<open>DECIMAL(15,2)\<close>, be
  they negative; and an accepted one lowers \<open>main_balance\<close> by the amount, rounded to two
  places. Funds are checked by the pages only, before they send anything and against the
  wallet row the page last fetched: \<open>handleWithdraw\<close> answers Insufficient Balance exactly
  when it holds no row or the amount exceeds that row's \<open>main_balance\<close>, \<open>handleInvest\<close>
  exactly when it holds no row or that row's \<open>main_balance\<close> is below the package's
  minimum amount, and then they write nothing.
\<close>

theorem funds_checked_only_by_pages:
  assumes "wallets_in_range d"
    and "ins_type p = ''withdrawal'' \<or> ins_type p = ''investment''"
  shows "((\<exists>d'. insert_transaction r now p d = Inr d') \<longleftrightarrow>
            (\<exists>NEW. cast_transaction p = Inr NEW
               \<and> rls_permits (policies d) r Transactions INSERT [ins_user_id p]
               \<and> ins_user_id p \<in> set (users d)
               \<and> list_all (\<lambda>w. fits 15 (main_balance w - amount NEW)
                                 \<and> (ins_type p = ''investment''
                                      \<longrightarrow> fits 15 (total_invested w + amount NEW)))
                    (filter (\<lambda>w. wallet_user_id w = ins_user_id p) (wallets d))))
     \<and> (\<forall>d' w. insert_transaction r now p d = Inr d'
                 \<and> wallet_of (ins_user_id p) d = Some w
           \<longrightarrow> map_option main_balance (wallet_of (ins_user_id p) d')
                 = Some (main_balance w - round_half_away (ins_amount p * 100)))
     \<and> (fst (handleWithdraw uid walletData amt phone_no d) = Insufficient_Balance
          \<longleftrightarrow> (case walletData of None \<Rightarrow> True
               | Some wd \<Rightarrow> to_number (main_balance wd) < amt))
     \<and> (fst (handleInvest uid now new_id walletData packageData d) = Insufficient_Balance
          \<longleftrightarrow> (case walletData of None \<Rightarrow> True
               | Some wd \<Rightarrow> main_balance wd < minimum_amount packageData))
     \<and> (fst (handleWithdraw uid walletData amt phone_no d) = Insufficient_Balance
          \<longrightarrow> snd (handleWithdraw uid walletData amt phone_no d) = d)
     \<and> (fst (handleInvest uid now new_id walletData packageData d) = Insufficient_Balance
          \<longrightarrow> snd (handleInvest uid now new_id walletData packageData d) = d)"
proof (intro conjI allI impI)
  have range: "list_all (\<lambda>w. balances_fit (balances w)) (wallets d)"
    using assms(1) by (simp add: wallets_in_range_def)
  have fit: "list_all (\<lambda>w. balances_fit (add_delta (balances w) delta))
               (filter (\<lambda>w. wallet_user_id w = ins_user_id p) (wallets d))
             \<longleftrightarrow> list_all (\<lambda>w. fits 15 (main_balance w - a)
                                 \<and> (ins_type p = ''investment''
                                      \<longrightarrow> fits 15 (total_invested w + a)))
                    (filter (\<lambda>w. wallet_user_id w = ins_user_id p) (wallets d))"
    if "dispatch_table (ins_type p) a = Some delta" for a delta
    using that assms(2) range
    by (auto simp: dispatch_table_def list_all_iff balances_fit_def balances_def
          add_delta_def)
  have dl: "\<exists>delta. dispatch_table (ins_type p) a = Some delta" for a
    using assms(2) by (auto simp: dispatch_table_def)
  show "(\<exists>d'. insert_transaction r now p d = Inr d') \<longleftrightarrow>
            (\<exists>NEW. cast_transaction p = Inr NEW
               \<and> rls_permits (policies d) r Transactions INSERT [ins_user_id p]
               \<and> ins_user_id p \<in> set (users d)
               \<and> list_all (\<lambda>w. fits 15 (main_balance w - amount NEW)
                                 \<and> (ins_type p = ''investment''
                                      \<longrightarrow> fits 15 (total_invested w + amount NEW)))
                    (filter (\<lambda>w. wallet_user_id w = ins_user_id p) (wallets d)))"
    unfolding insert_transaction_accepted_iff [OF assms(1)]
  proof
    assume "\<exists>NEW delta. cast_transaction p = Inr NEW
              \<and> rls_permits (policies d) r Transactions INSERT [ins_user_id p]
              \<and> ins_user_id p \<in> set (users d)
              \<and> dispatch_table (ins_type p) (amount NEW) = Some delta
              \<and> list_all (\<lambda>w. balances_fit (add_delta (balances w) delta))
                   (filter (\<lambda>w. wallet_user_id w = ins_user_id p) (wallets d))"
    then obtain NEW :: transaction_row and delta where
        "cast_transaction p = Inr NEW"
        "rls_permits (policies d) r Transactions INSERT [ins_user_id p]"
        "ins_user_id p \<in> set (users d)"
        "dispatch_table (ins_type p) (amount NEW) = Some delta"
        "list_all (\<lambda>w. balances_fit (add_delta (balances w) delta))
           (filter (\<lambda>w. wallet_user_id w = ins_user_id p) (wallets d))"
      by blast
    with fit [of "amount NEW" delta]
    show "\<exists>NEW. cast_transaction p = Inr NEW
               \<and> rls_permits (policies d) r Transactions INSERT [ins_user_id p]
               \<and> ins_user_id p \<in> set (users d)
               \<and> list_all (\<lambda>w. fits 15 (main_balance w - amount NEW)
                                 \<and> (ins_type p = ''investment''
                                      \<longrightarrow> fits 15 (total_invested w + amount NEW)))
                    (filter (\<lambda>w. wallet_user_id w = ins_user_id p) (wallets d))"
      by (intro exI [of _ NEW]) simp
  next
    assume "\<exists>NEW. cast_transaction p = Inr NEW
               \<and> rls_permits (policies d) r Transactions INSERT [ins_user_id p]
               \<and> ins_user_id p \<in> set (users d)
               \<and> list_all (\<lambda>w. fits 15 (main_balance w - amount NEW)
                                 \<and> (ins_type p = ''investment''
                                      \<longrightarrow> fits 15 (total_invested w + amount NEW)))
                    (filter (\<lambda>w. wallet_user_id w = ins_user_id p) (wallets d))"
    then obtain NEW :: transaction_row where n:
        "cast_transaction p = Inr NEW"
        "rls_permits (policies d) r Transactions INSERT [ins_user_id p]"
        "ins_user_id p \<in> set (users d)"
        "list_all (\<lambda>w. fits 15 (main_balance w - amount NEW)
                         \<and> (ins_type p = ''investment''
                              \<longrightarrow> fits 15 (total_invested w + amount NEW)))
           (filter (\<lambda>w. wallet_user_id w = ins_user_id p) (wallets d))"
      by blast
    from dl [of "amount NEW"] obtain delta where
        d: "dispatch_table (ins_type p) (amount NEW) = Some delta" ..
    from fit [OF d] n(4)
    have "list_all (\<lambda>w. balances_fit (add_delta (balances w) delta))
            (filter (\<lambda>w. wallet_user_id w = ins_user_id p) (wallets d))"
      by simp
    with n d
    show "\<exists>NEW delta. cast_transaction p = Inr NEW
              \<and> rls_permits (policies d) r Transactions INSERT [ins_user_id p]
              \<and> ins_user_id p \<in> set (users d)
              \<and> dispatch_table (ins_type p) (amount NEW) = Some delta
              \<and> list_all (\<lambda>w. balances_fit (add_delta (balances w) delta))
                   (filter (\<lambda>w. wallet_user_id w = ins_user_id p) (wallets d))"
      by (intro exI [of _ NEW] exI [of _ delta]) simp
  qed
next
  fix d' w
  assume a: "insert_transaction r now p d = Inr d' \<and> wallet_of (ins_user_id p) d = Some w"
  then have ins: "insert_transaction r now p d = Inr d'"
      and w: "find (\<lambda>w. wallet_user_id w = ins_user_id p) (wallets d) = Some w"
    by (simp_all add: wallet_of_def)
  from insert_transaction_effect [OF ins]
  obtain NEW :: transaction_row and delta where c: "cast_transaction p = Inr NEW"
      and dl: "dispatch_table (ins_type p) (amount NEW) = Some delta"
      and b: "map balances (wallets d')
               = map (\<lambda>w. if wallet_user_id w = ins_user_id p
                           then add_delta (balances w) delta else balances w) (wallets d)"
      and u: "map wallet_user_id (wallets d') = map wallet_user_id (wallets d)"
    by blast
  from c have am: "amount NEW = round_half_away (ins_amount p * 100)"
    by (simp add: cast_transaction_Inr to_decimal_Some)
  from find_map_balances [OF b u w]
  have "map_option balances (wallet_of (ins_user_id p) d')
          = Some (add_delta (balances w) delta)"
    by (simp add: wallet_of_def)
  with dl assms(2) am
  show "map_option main_balance (wallet_of (ins_user_id p) d')
          = Some (main_balance w - round_half_away (ins_amount p * 100))"
    by (auto simp: dispatch_table_def balances_def add_delta_def)
qed (simp_all add: handleWithdraw_refuses handleInvest_refuses handlers_refusing_write_nothing)

text \<open>
  An instance of each part: the overdraft above, and the two pages refusing, from a row
  that shows \<open>100.00\<close>, a withdrawal of \<open>500.00\<close> and an investment of \<open>10000.00\<close>.
\<close>

theorem funds_checked_only_by_pages_witness:
  "wallets_in_range (alice_db 10000 0)
   \<and> ins_type overdraft = ''withdrawal''
   \<and> insert_transaction Service_role 4 overdraft (alice_db 10000 0)
       = Inr ((alice_db 10000 0)
                \<lparr>transactions := transactions (alice_db 10000 0) @
                   [\<lparr>transaction_user_id = alice, transaction_kind = withdrawal,
                     amount = 50000, description = ''Withdrawal'', reference_id = None,
                     balance_before = 10000, balance_after = - 40000\<rparr>],
                 wallets := [(alice_wallet (- 40000) 0)\<lparr>updated_at := 4\<rparr>]\<rparr>)
   \<and> map_option main_balance (wallet_of alice (alice_db 10000 0)) = Some 10000
   \<and> map_option main_balance
        (wallet_of alice
           ((alice_db 10000 0)
              \<lparr>transactions := transactions (alice_db 10000 0) @
                 [\<lparr>transaction_user_id = alice, transaction_kind = withdrawal,
                   amount = 50000, description = ''Withdrawal'', reference_id = None,
                   balance_before = 10000, balance_after = - 40000\<rparr>],
               wallets := [(alice_wallet (- 40000) 0)\<lparr>updated_at := 4\<rparr>]\<rparr>))
       = Some (- 40000)
   \<and> handleWithdraw alice (Some (alice_wallet 10000 0)) 500 ''0712345678'' (alice_db 10000 0)
       = (Insufficient_Balance, alice_db 10000 0)
   \<and> handleInvest alice 4 invest_id
        (Some (alice_wallet 10000 0)) lite_package (alice_db 10000 0)
       = (Insufficient_Balance, alice_db 10000 0)"
proof -
  let ?d = "alice_db 10000 0"
  let ?w = "handleWithdraw alice (Some (alice_wallet 10000 0)) 500 ''0712345678'' ?d"
  let ?i = "handleInvest alice 4 invest_id
              (Some (alice_wallet 10000 0)) lite_package ?d"
  have range: "wallets_in_range ?d"
    by (simp add: alice_db_in_range fits_def)
  have kind: "ins_type overdraft = ''withdrawal'' \<or> ins_type overdraft = ''investment''"
    by (simp add: overdraft_def)
  note t = funds_checked_only_by_pages
             [OF range kind, where r = Service_role and now = 4 and uid = alice
                and walletData = "Some (alice_wallet 10000 0)" and amt = 500
                and phone_no = "''0712345678''" and packageData = lite_package
                and new_id = "invest_id"]
  have user: "ins_user_id overdraft = alice"
    by (simp add: overdraft_def)
  have w: "wallet_of (ins_user_id overdraft) ?d = Some (alice_wallet 10000 0)"
    by (simp add: user wallet_of_alice_db)
  note moved = t [THEN conjunct2, THEN conjunct1, rule_format, OF conjI [OF overdraft_run w]]
  have "map_option main_balance
          (wallet_of alice
             ((alice_db 10000 0)
                \<lparr>transactions := transactions (alice_db 10000 0) @
                   [\<lparr>transaction_user_id = alice, transaction_kind = withdrawal,
                     amount = 50000, description = ''Withdrawal'', reference_id = None,
                     balance_before = 10000, balance_after = - 40000\<rparr>],
                 wallets := [(alice_wallet (- 40000) 0)\<lparr>updated_at := 4\<rparr>]\<rparr>))
          = Some (main_balance (alice_wallet 10000 0)
                    - round_half_away (ins_amount overdraft * 100))"
    using moved unfolding user .
  then have after: "map_option main_balance
          (wallet_of alice
             ((alice_db 10000 0)
                \<lparr>transactions := transactions (alice_db 10000 0) @
                   [\<lparr>transaction_user_id = alice, transaction_kind = withdrawal,
                     amount = 50000, description = ''Withdrawal'', reference_id = None,
                     balance_before = 10000, balance_after = - 40000\<rparr>],
                 wallets := [(alice_wallet (- 40000) 0)\<lparr>updated_at := 4\<rparr>]\<rparr>))
          = Some (- 40000)"
    by (simp add: alice_wallet_def overdraft_def round_half_away_def)
  have less: "to_number (main_balance (alice_wallet 10000 0)) < 500"
      "main_balance (alice_wallet 10000 0) < minimum_amount lite_package"
    by (simp_all add: alice_wallet_def to_number_def lite_package_def)
  from t less have "fst ?w = Insufficient_Balance" "fst ?i = Insufficient_Balance"
    by simp_all
  moreover from this t have "snd ?w = ?d" "snd ?i = ?d"
    by blast+
  ultimately have "?w = (Insufficient_Balance, ?d)" "?i = (Insufficient_Balance, ?d)"
    by (simp_all add: prod_eq_iff)
  moreover have "map_option main_balance (wallet_of alice ?d) = Some 10000"
    by (simp add: wallet_of_alice_db alice_wallet_def)
  ultimately show ?thesis
    using range overdraft_run after by (simp add: overdraft_def)
qed

text \<open>
  C4, as the specification states it, fails: a deposit with amount \<open>- 50.00\<close> is accepted,
  its row is appended and \<open>main_balance\<close> goes from \<open>100.00\<close> to \<open>50.00\<close>.
\<close>

theorem negative_deposit_accepted:
  "map main_balance (wallets (alice_db 10000 0)) = [10000]
   \<and> insert_transaction Service_role 4
        \<lparr>ins_user_id = alice, ins_type = ''deposit'', ins_amount = - 50,
         ins_description = ''Deposit'', ins_reference_id = None,
         ins_balance_before = 100, ins_balance_after = 50\<rparr>
        (alice_db 10000 0)
       = Inr ((alice_db 10000 0)
                \<lparr>transactions := transactions (alice_db 10000 0) @
                   [\<lparr>transaction_user_id = alice, transaction_kind = deposit,
                     amount = - 5000, description = ''Deposit'', reference_id = None,
                     balance_before = 10000, balance_after = 5000\<rparr>],
                 wallets := [(alice_wallet 5000 0)\<lparr>updated_at := 4\<rparr>]\<rparr>)"
  using negative_deposit_run by (simp add: negative_deposit_def sample_defs)

text \<open>
  C4, amended: the store has no error \<open>InvalidAmount\<close>; an amount that is zero or
  negative is refused for no other reason than a positive one. With every stored balance
  in the range of its column, an insert with such an amount is accepted exactly when its
  kind is a label of the enum and its three amounts fit \<open>DECIMAL(15,2)\<close>, a policy admits
  the caller, the user exists and the balances the trigger assigns fit; it then appends
  the row with the amount rounded to two places, still zero or negative, and the trigger
  applies the dispatch table to that signed amount. A refused insert names its cause: the
  text of the kind, a value out of range, the policy, or the foreign key to the users.
\<close>

theorem nonpositive_amount_not_refused:
  assumes "wallets_in_range d" and "ins_amount p \<le> 0"
  shows "((\<exists>d'. insert_transaction r now p d = Inr d') \<longleftrightarrow>
            (\<exists>NEW delta. cast_transaction p = Inr NEW
               \<and> rls_permits (policies d) r Transactions INSERT [ins_user_id p]
               \<and> ins_user_id p \<in> set (users d)
               \<and> dispatch_table (ins_type p) (amount NEW) = Some delta
               \<and> list_all (\<lambda>w. balances_fit (add_delta (balances w) delta))
                    (filter (\<lambda>w. wallet_user_id w = ins_user_id p) (wallets d))))
     \<and> (\<forall>d'. insert_transaction r now p d = Inr d'
           \<longrightarrow> (\<exists>NEW delta. transactions d' = transactions d @ [NEW]
                  \<and> amount NEW = round_half_away (ins_amount p * 100)
                  \<and> amount NEW \<le> 0
                  \<and> dispatch_table (ins_type p) (amount NEW) = Some delta
                  \<and> map balances (wallets d')
                      = map (\<lambda>w. if wallet_user_id w = ins_user_id p
                                  then add_delta (balances w) delta else balances w)
                          (wallets d)))
     \<and> (\<forall>e. insert_transaction r now p d = Inl e
           \<longrightarrow> (e = invalid_text_representation (ins_type p)
                   \<and> transaction_type_in (ins_type p) = None)
               \<or> e = numeric_value_out_of_range
               \<or> (e = row_level_security_violation Transactions
                    \<and> \<not> rls_permits (policies d) r Transactions INSERT [ins_user_id p])
               \<or> (e = foreign_key_violation ''transactions_user_id_fkey''
                    \<and> ins_user_id p \<notin> set (users d)))"
proof (intro conjI allI impI)
  show "(\<exists>d'. insert_transaction r now p d = Inr d') \<longleftrightarrow>
            (\<exists>NEW delta. cast_transaction p = Inr NEW
               \<and> rls_permits (policies d) r Transactions INSERT [ins_user_id p]
               \<and> ins_user_id p \<in> set (users d)
               \<and> dispatch_table (ins_type p) (amount NEW) = Some delta
               \<and> list_all (\<lambda>w. balances_fit (add_delta (balances w) delta))
                    (filter (\<lambda>w. wallet_user_id w = ins_user_id p) (wallets d)))"
    by (rule insert_transaction_accepted_iff [OF assms(1)])
next
  fix d'
  assume "insert_transaction r now p d = Inr d'"
  from insert_transaction_effect [OF this]
  obtain NEW :: transaction_row and delta where c: "cast_transaction p = Inr NEW"
      and rest: "dispatch_table (ins_type p) (amount NEW) = Some delta"
        "transactions d' = transactions d @ [NEW]"
        "map balances (wallets d')
           = map (\<lambda>w. if wallet_user_id w = ins_user_id p
                       then add_delta (balances w) delta else balances w) (wallets d)"
    by blast
  from c have am: "amount NEW = round_half_away (ins_amount p * 100)"
    by (simp add: cast_transaction_Inr to_decimal_Some)
  with round_half_away_nonpos [OF assms(2)] have "amount NEW \<le> 0"
    by simp
  with am rest
  show "\<exists>NEW delta. transactions d' = transactions d @ [NEW]
                  \<and> amount NEW = round_half_away (ins_amount p * 100)
                  \<and> amount NEW \<le> 0
                  \<and> dispatch_table (ins_type p) (amount NEW) = Some delta
                  \<and> map balances (wallets d')
                      = map (\<lambda>w. if wallet_user_id w = ins_user_id p
                                  then add_delta (balances w) delta else balances w)
                          (wallets d)"
    by (intro exI [of _ NEW] exI [of _ delta]) simp
next
  fix e
  assume "insert_transaction r now p d = Inl e"
  then show "(e = invalid_text_representation (ins_type p)
                   \<and> transaction_type_in (ins_type p) = None)
               \<or> e = numeric_value_out_of_range
               \<or> (e = row_level_security_violation Transactions
                    \<and> \<not> rls_permits (policies d) r Transactions INSERT [ins_user_id p])
               \<or> (e = foreign_key_violation ''transactions_user_id_fkey''
                    \<and> ins_user_id p \<notin> set (users d))"
    by (rule insert_transaction_Inl)
qed

text \<open>
  An instance: the negative deposit above accepted from the service role, and refused,
  under the policies of the migration, from the signed-in user.
\<close>

theorem nonpositive_amount_not_refused_witness:
  "wallets_in_range (alice_db 10000 0)
   \<and> ins_amount negative_deposit \<le> 0
   \<and> insert_transaction Service_role 4 negative_deposit (alice_db 10000 0)
       = Inr ((alice_db 10000 0)
                \<lparr>transactions := transactions (alice_db 10000 0) @
                   [\<lparr>transaction_user_id = alice, transaction_kind = deposit,
                     amount = - 5000, description = ''Deposit'', reference_id = None,
                     balance_before = 10000, balance_after = 5000\<rparr>],
                 wallets := [(alice_wallet 5000 0)\<lparr>updated_at := 4\<rparr>]\<rparr>)
   \<and> map balances (wallets (alice_db 10000 0)) = [(10000, 0, 0, 0)]
   \<and> map balances [(alice_wallet 5000 0)\<lparr>updated_at := 4\<rparr>]
       = [add_delta (10000, 0, 0, 0) (- 5000, 0, 0, 0)]
   \<and> insert_transaction (Authenticated alice) 4 negative_deposit (alice_db 10000 0)
       = Inl (row_level_security_violation Transactions)
   \<and> \<not> rls_permits (policies (alice_db 10000 0)) (Authenticated alice) Transactions INSERT
          [alice]"
proof -
  let ?d = "alice_db 10000 0"
  have range: "wallets_in_range ?d"
    by (simp add: alice_db_in_range fits_def)
  have neg: "ins_amount negative_deposit \<le> 0"
    by (simp add: negative_deposit_def)
  have refused: "insert_transaction (Authenticated alice) 4 negative_deposit ?d
                   = Inl (row_level_security_violation Transactions)"
    by (simp add: negative_deposit_def sample_defs store_defs migration_policies_def)
  have user: "ins_user_id negative_deposit = alice"
    by (simp add: negative_deposit_def)
  note s = nonpositive_amount_not_refused
             [OF range neg, where r = Service_role and now = 4,
              THEN conjunct2, THEN conjunct1, rule_format, OF negative_deposit_run]
  note a = nonpositive_amount_not_refused
             [OF range neg, where r = "Authenticated alice" and now = 4,
              THEN conjunct2, THEN conjunct2, rule_format, OF refused]
  from a have denied:
    "\<not> rls_permits (policies ?d) (Authenticated alice) Transactions INSERT [alice]"
    by (simp add: user)
  from s obtain NEW :: transaction_row and delta where
      "amount NEW = round_half_away (ins_amount negative_deposit * 100)"
      "dispatch_table (ins_type negative_deposit) (amount NEW) = Some delta"
      "map balances (wallets ((alice_db 10000 0)
                \<lparr>transactions := transactions (alice_db 10000 0) @
                   [\<lparr>transaction_user_id = alice, transaction_kind = deposit,
                     amount = - 5000, description = ''Deposit'', reference_id = None,
                     balance_before = 10000, balance_after = 5000\<rparr>],
                 wallets := [(alice_wallet 5000 0)\<lparr>updated_at := 4\<rparr>]\<rparr>))
         = map (\<lambda>w. if wallet_user_id w = ins_user_id negative_deposit
                     then add_delta (balances w) delta else balances w)
             (wallets ?d)"
    by blast
  then have "dispatch_table ''deposit'' (- 5000) = Some delta"
      and "map balances [(alice_wallet 5000 0)\<lparr>updated_at := 4\<rparr>]
             = [add_delta (10000, 0, 0, 0) delta]"
    by (simp_all add: negative_deposit_def round_half_away_def sample_defs balances_def)
  moreover have "dispatch_table ''deposit'' (- 5000) = Some (- 5000, 0, 0, 0)"
    by (simp add: dispatch_table_def)
  moreover have "map balances (wallets ?d) = [(10000, 0, 0, 0)]"
    by (simp add: sample_defs balances_def)
  ultimately show ?thesis
    using range neg negative_deposit_run refused denied by simp
qed

section \<open>What the pages write\<close>

text \<open>
  C5, as the specification states it, fails: the columns \<open>balance_before\<close> and
  \<open>balance_after\<close> are values of the statement the caller sends, and nothing computes
  or checks them. A deposit of \<open>50.00\<close> sent with \<open>balance_before = 999\<close> and
  \<open>balance_after = 5\<close> against a main balance of 0 is recorded with \<open>999.00\<close> and
  \<open>5.00\<close>.
\<close>

theorem caller_supplied_snapshot_recorded:
  "insert_transaction Service_role 4
       \<lparr>ins_user_id = alice, ins_type = ''deposit'', ins_amount = 50,
        ins_description = ''Deposit'', ins_reference_id = None,
        ins_balance_before = 999, ins_balance_after = 5\<rparr> (alice_db 0 0)
     = Inr ((alice_db 0 0)
              \<lparr>transactions := transactions (alice_db 0 0) @
                 [\<lparr>transaction_user_id = alice, transaction_kind = deposit,
                   amount = 5000, description = ''Deposit'', reference_id = None,
                   balance_before = 99900, balance_after = 500\<rparr>],
               wallets := [(alice_wallet 5000 0)\<lparr>updated_at := 4\<rparr>]\<rparr>)
   \<and> map_option main_balance (wallet_of alice (alice_db 0 0)) = Some 0
   \<and> to_number 99900 = 999"
  by (simp add: sample_defs store_defs wallet_of_def to_number_def)

text \<open>
  C5, amended: the row appended by an accepted insert holds in \<open>balance_before\<close> and
  \<open>balance_after\<close> the values the caller sent, rounded to two places. \<open>handleInvest\<close>
  fills the two columns from the wallet row its page last fetched, with that row's
  \<open>main_balance\<close> and that minus the amount; \<open>balance_before\<close> is the stored balance at
  the call when that row is the stored one. \<open>transferReferralBonus\<close> never succeeds and
  stores no row.
\<close>

theorem balance_snapshot_is_callers:
  "(insert_transaction r now p d = Inr d'
      \<longrightarrow> (\<exists>NEW. transactions d' = transactions d @ [NEW]
                 \<and> to_decimal 15 (ins_balance_before p) = Some (balance_before NEW)
                 \<and> to_decimal 15 (ins_balance_after p) = Some (balance_after NEW)))
   \<and> (handleInvest uid now new_id walletData packageData d = (Investment_Successful, d')
      \<longrightarrow> (\<exists>wd t. walletData = Some wd \<and> transactions d' = transactions d @ [t]
                 \<and> balance_before t = main_balance wd
                 \<and> balance_after t = main_balance wd - minimum_amount packageData
                 \<and> (walletData = wallet_of uid d
                      \<longrightarrow> Some (balance_before t) = map_option main_balance (wallet_of uid d))))
   \<and> fst (transferReferralBonus uid now walletData d) \<noteq> Transfer_Successful
   \<and> transactions (snd (transferReferralBonus uid now walletData d)) = transactions d"
proof (intro conjI impI)
  assume "insert_transaction r now p d = Inr d'"
  then obtain NEW ws where "cast_transaction p = Inr NEW"
      and "d' = d\<lparr>transactions := transactions d @ [NEW], wallets := ws\<rparr>"
    by (rule insert_transaction_Inr)
  then show "\<exists>NEW. transactions d' = transactions d @ [NEW]
                 \<and> to_decimal 15 (ins_balance_before p) = Some (balance_before NEW)
                 \<and> to_decimal 15 (ins_balance_after p) = Some (balance_after NEW)"
    by (intro exI [of _ NEW]) (simp add: cast_transaction_Inr)
next
  assume "handleInvest uid now new_id walletData packageData d = (Investment_Successful, d')"
  from handleInvest_success [OF this] obtain wd :: wallet_row and t :: transaction_row where
      wd: "walletData = Some wd" and
      t: "transactions d' = transactions d @ [t]" "balance_before t = main_balance wd"
         "balance_after t = main_balance wd - minimum_amount packageData"
    by (elim exE conjE) simp
  have "walletData = wallet_of uid d
          \<longrightarrow> Some (balance_before t) = map_option main_balance (wallet_of uid d)"
  proof
    assume "walletData = wallet_of uid d"
    with wd have "wallet_of uid d = Some wd" by simp
    with t(2) show "Some (balance_before t) = map_option main_balance (wallet_of uid d)"
      by simp
  qed
  with wd t
  show "\<exists>wd t. walletData = Some wd \<and> transactions d' = transactions d @ [t]
                 \<and> balance_before t = main_balance wd
                 \<and> balance_after t = main_balance wd - minimum_amount packageData
                 \<and> (walletData = wallet_of uid d
                      \<longrightarrow> Some (balance_before t) = map_option main_balance (wallet_of uid d))"
    by blast
next
  show "fst (transferReferralBonus uid now walletData d) \<noteq> Transfer_Successful"
    by (simp add: transferReferralBonus_refused)
next
  show "transactions (snd (transferReferralBonus uid now walletData d)) = transactions d"
    by (simp add: transferReferralBonus_refused)
qed

text \<open>
  An instance: an investment in the Lite package from a page whose wallet row is current,
  in a database where an administrator lets users insert their own transactions.
\<close>

theorem balance_snapshot_is_callers_witness:
  "fst (handleInvest alice 10 invest_id (Some (alice_wallet 5000000 0)) lite_package
          (open_db 5000000 0)) = Investment_Successful
   \<and> Some (alice_wallet 5000000 0) = wallet_of alice (open_db 5000000 0)
   \<and> map balance_before
        (transactions (snd (handleInvest alice 10 invest_id (Some (alice_wallet 5000000 0))
           lite_package (open_db 5000000 0)))) = [0, 0, 5000000]
   \<and> map balance_after
        (transactions (snd (handleInvest alice 10 invest_id (Some (alice_wallet 5000000 0))
           lite_package (open_db 5000000 0)))) = [5000000, 0, 4000000]"
proof -
  let ?res = "handleInvest alice 10 invest_id (Some (alice_wallet 5000000 0)) lite_package
                (open_db 5000000 0)"
  have ok: "fst ?res = Investment_Successful"
    by (simp add: invest_lite_open)
  then have run: "?res = (Investment_Successful, snd ?res)"
    by (metis prod.collapse)
  have fresh: "Some (alice_wallet 5000000 0) = wallet_of alice (open_db 5000000 0)"
    by (simp add: wallet_of_open_db)
  from balance_snapshot_is_callers
         [where uid = alice and now = 10 and new_id = invest_id
            and walletData = "Some (alice_wallet 5000000 0)" and packageData = lite_package
            and d = "open_db 5000000 0" and d' = "snd ?res"] run
  obtain wd :: wallet_row and t :: transaction_row
    where wd: "Some (alice_wallet 5000000 0) = Some wd"
      and ts: "transactions (snd ?res) = transactions (open_db 5000000 0) @ [t]"
      and before: "balance_before t = main_balance wd"
      and after: "balance_after t = main_balance wd - minimum_amount lite_package"
    by blast
  from wd have "main_balance wd = 5000000"
    by (auto simp: alice_wallet_def)
  with before after have "balance_before t = 5000000" and "balance_after t = 4000000"
    by (simp_all add: lite_package_def)
  moreover have "map balance_before (transactions (open_db 5000000 0)) = [0, 0]"
      "map balance_after (transactions (open_db 5000000 0)) = [5000000, 0]"
    by (simp_all add: sample_defs)
  ultimately have "map balance_before (transactions (snd ?res)) = [0, 0, 5000000]"
      and "map balance_after (transactions (snd ?res)) = [5000000, 0, 4000000]"
    using ts by simp_all
  with ok fresh show ?thesis by simp
qed




text \<open>
  C10 asks that the transfer of the referral bonus, when \<open>referral_bonus_balance\<close> is
  positive, records one \<open>referral_bonus_transfer\<close> transaction for the whole bonus, sets
  \<open>referral_bonus_balance\<close> to zero and adds the bonus to \<open>main_balance\<close>.
  \<open>transferReferralBonus\<close> attempts this, an insert of that row followed by an update of
  the wallet, and never gets there: the kind it sends is no label of the enum
  \<open>transaction_type\<close> of the migration, the store refuses the insert, and the handler
  stops. With a bonus of \<open>500.00\<close> in the stored row and in the page's copy of it, the
  handler answers Transfer Failed and leaves the database as it was, under the policies
  of the migration and also when users may insert their own transactions.
\<close>

theorem transferReferralBonus_fails:
  "wallet_of alice (alice_db 0 50000) = Some (alice_wallet 0 50000)
   \<and> balances (alice_wallet 0 50000) = (0, 50000, 0, 0)
   \<and> transferReferralBonus alice 10 (Some (alice_wallet 0 50000)) (alice_db 0 50000)
       = (Transfer_Failed, alice_db 0 50000)
   \<and> transferReferralBonus alice 10 (Some (alice_wallet 0 50000)) (open_db 0 50000)
       = (Transfer_Failed, open_db 0 50000)"
  by (simp add: transferReferralBonus_refused wallet_of_alice_db)
     (simp add: alice_wallet_def balances_def)

text \<open>
  What \<open>transferReferralBonus\<close> does on every input: it writes nothing; it answers No Bonus
  Available when the page holds no wallet row or the \<open>referral_bonus_balance\<close> of that
  row is not positive, as C10 asks, and Transfer Failed otherwise. No role can insert a
  row of kind \<open>referral_bonus_transfer\<close>.
\<close>

theorem transferReferralBonus_writes_nothing:
  "transferReferralBonus uid now walletData d =
     (if (case walletData of None \<Rightarrow> True | Some wd \<Rightarrow> referral_bonus_balance wd \<le> 0)
      then No_Bonus_Available else Transfer_Failed, d)
   \<and> insert_transaction r now
        \<lparr>ins_user_id = uid, ins_type = ''referral_bonus_transfer'', ins_amount = a,
         ins_description = txt, ins_reference_id = ref,
         ins_balance_before = before, ins_balance_after = after\<rparr> d
       = Inl (invalid_text_representation ''referral_bonus_transfer'')"
  by (simp add: transferReferralBonus_refused insert_transaction_def cast_transaction_def
        transaction_type_in_def)

section \<open>Requests and the log\<close>

text \<open>
  C9: submitting a deposit request or a withdrawal request inserts exactly one row with
  status pending into \<open>deposits\<close> or \<open>withdrawals\<close>, its amount rounded to two places,
  and changes nothing else: no transaction row is created and no wallet changes. The
  request is submitted exactly when the store admits the insert (the amount fits its
  column, the policy admits the user, the user exists) and, for a withdrawal, the page
  holds a wallet row whose \<open>main_balance\<close> covers the amount; otherwise the handler
  writes nothing at all.
\<close>

theorem requests_touch_only_their_table:
  "snd (handleDeposit uid amt reference d)
     = d\<lparr>deposits :=
           (if fst (handleDeposit uid amt reference d) = Deposit_Request_Submitted
            then deposits d @
                   [\<lparr>deposit_user_id = uid, deposit_amount = round_half_away (amt * 100),
                     transaction_reference = reference, deposit_state = deposit_pending\<rparr>]
            else deposits d)\<rparr>
   \<and> transactions (snd (handleDeposit uid amt reference d)) = transactions d
   \<and> wallets (snd (handleDeposit uid amt reference d)) = wallets d
   \<and> (fst (handleDeposit uid amt reference d) = Deposit_Request_Submitted
        \<longleftrightarrow> fits 15 (round_half_away (amt * 100))
            \<and> rls_permits (policies d) (Authenticated uid) Deposits INSERT [uid]
            \<and> uid \<in> set (users d))
   \<and> snd (handleWithdraw uid walletData amt phone_no d)
       = d\<lparr>withdrawals :=
             (if fst (handleWithdraw uid walletData amt phone_no d)
                   = Withdrawal_Request_Submitted
              then withdrawals d @
                     [\<lparr>withdrawal_user_id = uid,
                       withdrawal_amount = round_half_away (amt * 100),
                       phone_number = phone_no, withdrawal_state = withdrawal_pending\<rparr>]
              else withdrawals d)\<rparr>
   \<and> transactions (snd (handleWithdraw uid walletData amt phone_no d)) = transactions d
   \<and> wallets (snd (handleWithdraw uid walletData amt phone_no d)) = wallets d
   \<and> (fst (handleWithdraw uid walletData amt phone_no d) = Withdrawal_Request_Submitted
        \<longleftrightarrow> (case walletData of None \<Rightarrow> False
             | Some wd \<Rightarrow> amt \<le> to_number (main_balance wd))
            \<and> fits 15 (round_half_away (amt * 100))
            \<and> rls_permits (policies d) (Authenticated uid) Withdrawals INSERT [uid]
            \<and> uid \<in> set (users d))"
proof -
  have dep: "handleDeposit uid amt reference d =
      (if fits 15 (round_half_away (amt * 100))
          \<and> rls_permits (policies d) (Authenticated uid) Deposits INSERT [uid]
          \<and> uid \<in> set (users d)
       then (Deposit_Request_Submitted,
             d\<lparr>deposits := deposits d @
                 [\<lparr>deposit_user_id = uid, deposit_amount = round_half_away (amt * 100),
                   transaction_reference = reference, deposit_state = deposit_pending\<rparr>]\<rparr>)
       else (Deposit_Failed, d))"
    by (auto simp: handleDeposit_def insert_deposit_def to_decimal_def Let_def)
  have wd: "handleWithdraw uid walletData amt phone_no d =
      (if (case walletData of None \<Rightarrow> False | Some wd \<Rightarrow> amt \<le> to_number (main_balance wd))
       then if fits 15 (round_half_away (amt * 100))
               \<and> rls_permits (policies d) (Authenticated uid) Withdrawals INSERT [uid]
               \<and> uid \<in> set (users d)
            then (Withdrawal_Request_Submitted,
                  d\<lparr>withdrawals := withdrawals d @
                      [\<lparr>withdrawal_user_id = uid,
                        withdrawal_amount = round_half_away (amt * 100),
                        phone_number = phone_no, withdrawal_state = withdrawal_pending\<rparr>]\<rparr>)
            else (Withdrawal_Failed, d)
       else (Insufficient_Balance, d))"
    by (auto simp: handleWithdraw_def insert_withdrawal_def to_decimal_def Let_def
          split: option.splits)
  show ?thesis
    unfolding dep wd by simp
qed

text \<open>
  An instance of each request under the policies of the migration.
\<close>

theorem requests_touch_only_their_table_witness:
  "handleDeposit alice 2000 ''QWERTY123'' (alice_db 0 0)
     = (Deposit_Request_Submitted,
        (alice_db 0 0)\<lparr>deposits :=
           [\<lparr>deposit_user_id = alice, deposit_amount = 200000,
             transaction_reference = ''QWERTY123'', deposit_state = deposit_pending\<rparr>]\<rparr>)
   \<and> handleWithdraw alice (Some (alice_wallet 500000 0)) 1500 ''0712345678''
        (alice_db 500000 0)
     = (Withdrawal_Request_Submitted,
        (alice_db 500000 0)\<lparr>withdrawals :=
           [\<lparr>withdrawal_user_id = alice, withdrawal_amount = 150000,
             phone_number = ''0712345678'', withdrawal_state = withdrawal_pending\<rparr>]\<rparr>)"
proof -
  let ?dep = "handleDeposit alice 2000 ''QWERTY123'' (alice_db 0 0)"
  let ?wd = "handleWithdraw alice (Some (alice_wallet 500000 0)) 1500 ''0712345678''
               (alice_db 500000 0)"
  have p: "rls_permits (policies (alice_db m r)) (Authenticated alice) Deposits INSERT [alice]"
      "rls_permits (policies (alice_db m r)) (Authenticated alice) Withdrawals INSERT [alice]"
      "alice \<in> set (users (alice_db m r))" "deposits (alice_db m r) = []"
      "withdrawals (alice_db m r) = []" for m r
    by (simp_all add: sample_defs rls_permits_def migration_policies_def)
  have bal: "(1500::real) \<le> to_number (main_balance (alice_wallet 500000 0))"
    by (simp add: alice_wallet_def to_number_def)
  have r: "round_half_away (2000 * 100) = 200000" "round_half_away (1500 * 100) = 150000"
      "fits 15 200000" "fits 15 150000"
    by (simp_all add: round_half_away_def fits_def)
  note t = requests_touch_only_their_table
              [where uid = alice and amt = 2000 and reference = "''QWERTY123''"
                 and d = "alice_db 0 0"]
  note u = requests_touch_only_their_table
              [where uid = alice and amt = 1500 and phone_no = "''0712345678''"
                 and d = "alice_db 500000 0" and walletData = "Some (alice_wallet 500000 0)"]
  from t [THEN conjunct2, THEN conjunct2, THEN conjunct2, THEN conjunct1] p [of 0 0] r
  have f1: "fst ?dep = Deposit_Request_Submitted"
    by simp
  from t have "snd ?dep = (alice_db 0 0)\<lparr>deposits :=
           (if fst ?dep = Deposit_Request_Submitted
            then deposits (alice_db 0 0) @
                   [\<lparr>deposit_user_id = alice, deposit_amount = round_half_away (2000 * 100),
                     transaction_reference = ''QWERTY123'', deposit_state = deposit_pending\<rparr>]
            else deposits (alice_db 0 0))\<rparr>"
    by (rule conjunct1)
  with f1 p [of 0 0] r have s1: "snd ?dep = (alice_db 0 0)\<lparr>deposits :=
           [\<lparr>deposit_user_id = alice, deposit_amount = 200000,
             transaction_reference = ''QWERTY123'', deposit_state = deposit_pending\<rparr>]\<rparr>"
    by simp
  note u' = u [THEN conjunct2, THEN conjunct2, THEN conjunct2, THEN conjunct2]
  from u' have u1: "snd ?wd = (alice_db 500000 0)\<lparr>withdrawals :=
             (if fst ?wd = Withdrawal_Request_Submitted
              then withdrawals (alice_db 500000 0) @
                     [\<lparr>withdrawal_user_id = alice,
                       withdrawal_amount = round_half_away (1500 * 100),
                       phone_number = ''0712345678'', withdrawal_state = withdrawal_pending\<rparr>]
              else withdrawals (alice_db 500000 0))\<rparr>"
    by (rule conjunct1)
  from u' [THEN conjunct2, THEN conjunct2, THEN conjunct2] p [of 500000 0] bal r
  have f2: "fst ?wd = Withdrawal_Request_Submitted"
    by simp
  with u1 p [of 500000 0] r have s2: "snd ?wd = (alice_db 500000 0)\<lparr>withdrawals :=
           [\<lparr>withdrawal_user_id = alice, withdrawal_amount = 150000,
             phone_number = ''0712345678'', withdrawal_state = withdrawal_pending\<rparr>]\<rparr>"
    by simp
  from f1 s1 f2 s2 show ?thesis
    by (simp add: prod_eq_iff)
qed

text \<open>
  C8: transaction rows are append-only for users. With no \<open>UPDATE\<close> and no \<open>DELETE\<close>
  policy on \<open>transactions\<close>, as in the migration, whatever sequence of requests signed-in
  users send (the handlers of the pages, and \<open>INSERT\<close>, \<open>UPDATE\<close> or \<open>DELETE\<close>
  statements on \<open>transactions\<close> and updates of their wallet sent to the API directly),
  every row that was in the table is still there, unchanged and at its place, and rows
  are only added after it.
\<close>

theorem transactions_append_only:
  "no_write_policy_on_transactions (policies d) \<Longrightarrow>
     prefix (transactions d) (transactions (user_steps reqs d))"
proof (induction reqs arbitrary: d)
  case Nil
  then show ?case by simp
next
  case (Cons a reqs)
  obtain uid req where a: "a = (uid, req)"
    by (cases a) auto
  from user_step_grows [OF Cons.prems, of uid req]
  have step: "prefix (transactions d) (transactions (user_step uid req d))"
    and pol: "policies (user_step uid req d) = policies d"
    by simp_all
  from pol Cons.prems have "no_write_policy_on_transactions (policies (user_step uid req d))"
    by simp
  then have "prefix (transactions (user_step uid req d))
                (transactions (user_steps reqs (user_step uid req d)))"
    by (rule Cons.IH)
  with step a show ?case
    by (auto intro: prefix_order.trans)
qed

text \<open>
  An instance: the policies of the migration have no such policy, and a delete, two
  updates and two handlers run against a log of two rows leave those rows first.
\<close>

theorem transactions_append_only_witness:
  "no_write_policy_on_transactions migration_policies
   \<and> no_write_policy_on_transactions (policies (open_db 5000000 0))
   \<and> transactions (open_db 5000000 0)
       = [alice_row deposit 5000000, alice_row referral_commission 0]
   \<and> prefix (transactions (open_db 5000000 0))
        (transactions (user_steps sample_requests (open_db 5000000 0)))
   \<and> length (transactions (user_steps sample_requests (open_db 5000000 0))) = 3"
proof -
  have m: "no_write_policy_on_transactions migration_policies"
    by (simp add: no_write_policy_on_transactions_def migration_policies_def)
  have b: "no_write_policy_on_transactions (policies (open_db 5000000 0))"
    by (simp add: no_write_policy_on_transactions_def open_db_def migration_policies_def)
  have t: "transactions (open_db 5000000 0)
             = [alice_row deposit 5000000, alice_row referral_commission 0]"
    by (simp add: open_db_def alice_db_def)
  from transactions_append_only [OF b, of sample_requests] m b t sample_requests_run
  show ?thesis by simp
qed

section \<open>Provisioning an account\<close>

text \<open>
  C7 asks that \<open>handle_new_user\<close>, run for a user id with no profile and no wallet,
  creates one profile and one wallet. The code does not for the ids
  \<open>d86f011c-e1d4-4392-be86-6bc9521adda1\<close> and \<open>8ea00ea3-fdb8-42dc-8b29-659220d9a3d6\<close>,
  which have the same referral code \<open>NA51FEB6\<close>: once the first is registered, the
  trigger run for the second fails on the unique constraint of \<open>profiles.referral_code\<close>
  and creates nothing, although the trigger's comment announces a unique referral code.
\<close>

theorem referral_codes_collide:
  "on_auth_user_created 1 alice_user empty_db = Inr alice_registered
   \<and> alice \<noteq> bob
   \<and> \<not> list_ex (\<lambda>p. profile_user_id p = bob) (profiles alice_registered)
   \<and> \<not> list_ex (\<lambda>w. wallet_user_id w = bob) (wallets alice_registered)
   \<and> handle_new_user 2 bob_user alice_registered
       = Inl (unique_violation ''profiles_referral_code_key'')"
proof -
  have ne: "alice \<noteq> bob"
    by (rule alice_ne_bob)
  then have free: "\<not> list_ex (\<lambda>p. profile_user_id p = bob) (profiles alice_registered)"
      "\<not> list_ex (\<lambda>w. wallet_user_id w = bob) (wallets alice_registered)"
    by (simp_all add: alice_registered_def empty_db_def)
  have taken: "list_ex (\<lambda>p. referral_code p = ref_code_of bob) (profiles alice_registered)"
    by (simp add: ref_code_bob alice_registered_def empty_db_def)
  have "auth_id bob_user = bob"
    by (simp add: bob_user_def)
  with free taken
  have "handle_new_user 2 bob_user alice_registered
          = Inl (unique_violation ''profiles_referral_code_key'')"
    by (simp add: handle_new_user_def)
  with register_alice ne free show ?thesis
    by simp
qed

text \<open>
  Apart from such a collision the trigger does what is asked of it:
  \<open>handle_new_user\<close>, run for a user id with no profile, no wallet, and
  whose referral code no profile holds yet, creates exactly one profile, whose referral
  code is \<open>NA\<close> followed by the first six digits of the \<open>MD5\<close> of the id in upper case
  (eight characters), and exactly one wallet with all four balances zero; a second run for
  the same id fails on the unique constraint of \<open>profiles.user_id\<close> and leaves exactly one
  profile and one wallet for the id.
\<close>

theorem handle_new_user_provisions:
  assumes "\<not> list_ex (\<lambda>p. profile_user_id p = auth_id NEW) (profiles d)"
    and "\<not> list_ex (\<lambda>w. wallet_user_id w = auth_id NEW) (wallets d)"
    and "\<not> list_ex (\<lambda>p. referral_code p = ref_code_of (auth_id NEW)) (profiles d)"
  shows "\<exists>d' p w.
           handle_new_user now NEW d = Inr d'
           \<and> profiles d' = profiles d @ [p] \<and> profile_user_id p = auth_id NEW
           \<and> referral_code p = ''NA'' @ upper (take 6 (md5 (auth_id NEW)))
           \<and> length (referral_code p) = 8
           \<and> wallets d' = wallets d @ [w] \<and> wallet_user_id w = auth_id NEW
           \<and> balances w = (0, 0, 0, 0)
           \<and> handle_new_user now' NEW d' = Inl (unique_violation ''profiles_user_id_key'')
           \<and> length (filter (\<lambda>p. profile_user_id p = auth_id NEW) (profiles d')) = 1
           \<and> length (filter (\<lambda>w. wallet_user_id w = auth_id NEW) (wallets d')) = 1"
proof -
  let ?p = "\<lparr>profile_user_id = auth_id NEW,
             full_name = coalesce (map_of (raw_user_meta_data NEW) ''full_name'') ''User'',
             phone = coalesce (map_of (raw_user_meta_data NEW) ''phone'') [],
             email = auth_email NEW,
             referral_code = ref_code_of (auth_id NEW),
             referred_by = None\<rparr>"
  let ?w = "\<lparr>wallet_user_id = auth_id NEW, main_balance = 0,
             referral_bonus_balance = 0, total_invested = 0, total_profits = 0,
             updated_at = now\<rparr>"
  let ?d' = "d\<lparr>profiles := profiles d @ [?p], wallets := wallets d @ [?w]\<rparr>"
  have run: "handle_new_user now NEW d = Inr ?d'"
    using assms by (simp add: handle_new_user_def)
  have again: "handle_new_user now' NEW ?d' = Inl (unique_violation ''profiles_user_id_key'')"
    by (simp add: handle_new_user_def)
  have none_p: "filter (\<lambda>p. profile_user_id p = auth_id NEW) (profiles d) = []"
    using assms(1) by (auto simp: list_ex_iff filter_empty_conv)
  have none_w: "filter (\<lambda>w. wallet_user_id w = auth_id NEW) (wallets d) = []"
    using assms(2) by (auto simp: list_ex_iff filter_empty_conv)
  have code: "referral_code ?p = ''NA'' @ upper (take 6 (md5 (auth_id NEW)))"
    by (simp add: ref_code_of_def substring_def)
  have len: "length (referral_code ?p) = 8"
    by (simp add: length_ref_code_of)
  have "handle_new_user now NEW d = Inr ?d'
           \<and> profiles ?d' = profiles d @ [?p] \<and> profile_user_id ?p = auth_id NEW
           \<and> referral_code ?p = ''NA'' @ upper (take 6 (md5 (auth_id NEW)))
           \<and> length (referral_code ?p) = 8
           \<and> wallets ?d' = wallets d @ [?w] \<and> wallet_user_id ?w = auth_id NEW
           \<and> balances ?w = (0, 0, 0, 0)
           \<and> handle_new_user now' NEW ?d' = Inl (unique_violation ''profiles_user_id_key'')
           \<and> length (filter (\<lambda>p. profile_user_id p = auth_id NEW) (profiles ?d')) = 1
           \<and> length (filter (\<lambda>w. wallet_user_id w = auth_id NEW) (wallets ?d')) = 1"
    using run again none_p none_w code len by (simp add: balances_def)
  then show ?thesis by blast
qed

text \<open>An instance: the first registration in an empty database, and its repetition.\<close>

theorem handle_new_user_provisions_witness:
  "handle_new_user 1 alice_user (empty_db\<lparr>users := [alice]\<rparr>) = Inr alice_registered
   \<and> map referral_code (profiles alice_registered) = [''NA51FEB6'']
   \<and> map balances (wallets alice_registered) = [(0, 0, 0, 0)]
   \<and> handle_new_user 2 alice_user alice_registered
       = Inl (unique_violation ''profiles_user_id_key'')"
proof -
  let ?d = "empty_db\<lparr>users := [alice]\<rparr>"
  have h: "\<not> list_ex (\<lambda>p. profile_user_id p = auth_id alice_user) (profiles ?d)"
      "\<not> list_ex (\<lambda>w. wallet_user_id w = auth_id alice_user) (wallets ?d)"
      "\<not> list_ex (\<lambda>p. referral_code p = ref_code_of (auth_id alice_user)) (profiles ?d)"
    by (simp_all add: empty_db_def)
  have run: "handle_new_user 1 alice_user ?d = Inr alice_registered"
    by (simp add: handle_new_user_def empty_db_def alice_user_def
          alice_registered_def ref_code_alice coalesce_def)
  from handle_new_user_provisions [OF h, of 1 2] run
  have "handle_new_user 2 alice_user alice_registered
          = Inl (unique_violation ''profiles_user_id_key'')"
    by auto
  with run show ?thesis
    by (simp add: alice_registered_def empty_db_def balances_def)
qed

end
